theory Spec2Isabelle
  imports Main "HOL-Library.Word"
begin

unbundle bit_operations_syntax

section \<open>Python values used by \<open>blockchain_service.py\<close>\<close>

text \<open>
  A Python \<open>str\<close> is a sequence of Unicode code points (numbers below \<open>0x110000\<close>,
  lone surrogates \<open>0xD800..0xDFFF\<close> included); \<open>len\<close> counts code points. String
  literals of the source are ASCII and are written \<open>S ''...''\<close>.
\<close>

type_synonym pystr = "nat list"
type_synonym byte = "8 word"
type_synonym w32 = "32 word"

definition S :: "string \<Rightarrow> pystr" where
  "S cs = map of_char cs"

definition valid_str :: "pystr \<Rightarrow> bool" where
  "valid_str s = list_all (\<lambda>c. c < 0x110000) s"

text \<open>
  The exceptions the module's code can raise on a \<open>str\<close> and an \<open>int\<close>:
  \<open>str.encode()\<close> raises \<open>UnicodeEncodeError(encoding, object, start, end, reason)\<close> on
  a lone surrogate, and formatting an \<open>int\<close> raises \<open>ValueError\<close> when the interpreter's
  limit on the digits of an int-to-str conversion (\<open>sys.get_int_max_str_digits()\<close>, 0 for
  no limit) is exceeded. Both classes derive from \<open>Exception\<close>.
\<close>

datatype py_exception =
    UnicodeEncodeError pystr nat nat
  | ValueError pystr

datatype pyval = PNone | PBool bool | PInt int | PStr pystr

type_synonym pydict = "(string \<times> pyval) list"

subsection \<open>Decimal and hexadecimal rendering\<close>

definition digit_char :: "nat \<Rightarrow> nat" where
  "digit_char d = of_char (''0123456789abcdef'' ! d)"

function str_nat :: "nat \<Rightarrow> pystr" where
  "str_nat n = (if n < 10 then [digit_char n] else str_nat (n div 10) @ [digit_char (n mod 10)])"
  by pat_completeness auto
termination
  by (relation "measure id") auto

declare str_nat.simps [simp del]

definition hex_fixed :: "nat \<Rightarrow> nat \<Rightarrow> pystr" where
  "hex_fixed width n = map (\<lambda>i. digit_char ((n div 16 ^ i) mod 16)) (rev [0..<width])"

text \<open>
  \<open>format(i, '')\<close> for an \<open>int\<close> inside an f-string: the decimal digits, a minus sign for a
  negative number, and \<open>ValueError\<close> when the digits exceed a non-zero limit.
\<close>

definition str_int :: "int \<Rightarrow> pystr" where
  "str_int i = (if i < 0 then S ''-'' @ str_nat (nat \<bar>i\<bar>) else str_nat (nat \<bar>i\<bar>))"

definition format_int :: "nat \<Rightarrow> int \<Rightarrow> py_exception + pystr" where
  "format_int limit i =
     (if 0 < limit \<and> limit < length (str_nat (nat \<bar>i\<bar>)) then
        Inl (ValueError (S ''Exceeds the limit ('' @ str_nat limit @
               S '' digits) for integer string conversion; use sys.set_int_max_str_digits() to increase the limit''))
      else Inr (str_int i))"

subsection \<open>\<open>str.encode()\<close>: strict UTF-8\<close>

definition is_surrogate :: "nat \<Rightarrow> bool" where
  "is_surrogate c = (0xD800 \<le> c \<and> c \<le> 0xDFFF)"

definition utf8_char :: "nat \<Rightarrow> byte list" where
  "utf8_char c =
     (if c < 0x80 then [of_nat c]
      else if c < 0x800 then [of_nat (0xC0 + c div 64), of_nat (0x80 + c mod 64)]
      else if c < 0x10000 then
        [of_nat (0xE0 + c div 4096), of_nat (0x80 + (c div 64) mod 64), of_nat (0x80 + c mod 64)]
      else
        [of_nat (0xF0 + c div 262144), of_nat (0x80 + (c div 4096) mod 64),
         of_nat (0x80 + (c div 64) mod 64), of_nat (0x80 + c mod 64)])"

text \<open>
  The encoder walks the string; at a surrogate it raises, reporting the whole run of
  consecutive surrogates \<open>[start, end)\<close>. \<open>utf8_from s pos rest\<close> encodes the suffix
  \<open>rest\<close> of \<open>s\<close> that starts at index \<open>pos\<close>.
\<close>

fun utf8_from :: "pystr \<Rightarrow> nat \<Rightarrow> pystr \<Rightarrow> py_exception + byte list" where
  "utf8_from s pos [] = Inr []"
| "utf8_from s pos (c # cs) =
     (if is_surrogate c then
        Inl (UnicodeEncodeError s pos (pos + length (takeWhile is_surrogate (c # cs))))
      else (case utf8_from s (Suc pos) cs of
              Inl e \<Rightarrow> Inl e
            | Inr bs \<Rightarrow> Inr (utf8_char c @ bs)))"

definition encode :: "pystr \<Rightarrow> py_exception + byte list" where
  "encode s = utf8_from s 0 s"

text \<open>\<open>str(e)\<close> of the two exceptions, as CPython renders them.\<close>

definition escape_char :: "nat \<Rightarrow> pystr" where
  "escape_char c =
     (if c \<le> 0xff then S [CHR 0x5C] @ S ''x'' @ hex_fixed 2 c
      else if c \<le> 0xffff then S [CHR 0x5C] @ S ''u'' @ hex_fixed 4 c
      else S [CHR 0x5C] @ S ''U'' @ hex_fixed 8 c)"

fun str_exception :: "py_exception \<Rightarrow> pystr" where
  "str_exception (ValueError msg) = msg"
| "str_exception (UnicodeEncodeError obj start end) =
     (if start < length obj \<and> end = start + 1 then
        S [CHR 0x27] @ S ''utf-8'' @ S [CHR 0x27] @ S '' codec can'' @ S [CHR 0x27] @
        S ''t encode character '' @ S [CHR 0x27] @ escape_char (obj ! start) @ S [CHR 0x27] @
        S '' in position '' @ str_nat start @ S '': surrogates not allowed''
      else
        S [CHR 0x27] @ S ''utf-8'' @ S [CHR 0x27] @ S '' codec can'' @ S [CHR 0x27] @
        S ''t encode characters in position '' @ str_nat start @ S ''-'' @ str_nat (end - 1) @
        S '': surrogates not allowed'')"

section \<open>\<open>hashlib.sha256\<close>\<close>

text \<open>SHA-256 (FIPS 180-4) on a list of bytes, with 32-bit words that wrap on addition.\<close>

definition rotr :: "nat \<Rightarrow> w32 \<Rightarrow> w32" where
  "rotr n x = drop_bit n x OR push_bit (32 - n) x"

definition Ch :: "w32 \<Rightarrow> w32 \<Rightarrow> w32 \<Rightarrow> w32" where
  "Ch x y z = (x AND y) XOR (NOT x AND z)"

definition Maj :: "w32 \<Rightarrow> w32 \<Rightarrow> w32 \<Rightarrow> w32" where
  "Maj x y z = (x AND y) XOR (x AND z) XOR (y AND z)"

definition bsig0 :: "w32 \<Rightarrow> w32" where
  "bsig0 x = rotr 2 x XOR rotr 13 x XOR rotr 22 x"

definition bsig1 :: "w32 \<Rightarrow> w32" where
  "bsig1 x = rotr 6 x XOR rotr 11 x XOR rotr 25 x"

definition ssig0 :: "w32 \<Rightarrow> w32" where
  "ssig0 x = rotr 7 x XOR rotr 18 x XOR drop_bit 3 x"

definition ssig1 :: "w32 \<Rightarrow> w32" where
  "ssig1 x = rotr 17 x XOR rotr 19 x XOR drop_bit 10 x"

text \<open>
  The constants, by their definition in the standard: the round constants are the first
  32 bits of the fractional parts of the cube roots of the first 64 primes, the initial
  hash value the first 32 bits of the fractional parts of the square roots of the first
  8 primes. The primes come from the sieve of Eratosthenes on the numbers below 312
  (the 64th prime is 311); \<open>root_bits k n b r\<close> finds the integer \<open>k\<close>-th root of \<open>n\<close> bit by bit,
  from bit \<open>b - 1\<close> down, and \<open>of_nat\<close> keeps the low 32 bits.
\<close>

fun sieve :: "nat list \<Rightarrow> nat list" where
  "sieve [] = []"
| "sieve (p # xs) = p # sieve (filter (\<lambda>x. x mod p \<noteq> 0) xs)"

definition first_primes :: "nat \<Rightarrow> nat list" where
  "first_primes n = take n (sieve [2..<312])"

primrec root_bits :: "nat \<Rightarrow> nat \<Rightarrow> nat \<Rightarrow> nat \<Rightarrow> nat" where
  "root_bits k n 0 r = r"
| "root_bits k n (Suc b) r = root_bits k n b (if (r + 2 ^ b) ^ k \<le> n then r + 2 ^ b else r)"

definition frac_root_bits :: "nat \<Rightarrow> nat \<Rightarrow> w32" where
  "frac_root_bits k p = of_nat (root_bits k (p * 2 ^ (32 * k)) 40 0)"

definition sha_K :: "w32 list" where
  "sha_K = map (frac_root_bits 3) (first_primes 64)"

type_synonym sha_state = "w32 \<times> w32 \<times> w32 \<times> w32 \<times> w32 \<times> w32 \<times> w32 \<times> w32"

definition sha_init :: sha_state where
  "sha_init =
     (frac_root_bits 2 2, frac_root_bits 2 3, frac_root_bits 2 5, frac_root_bits 2 7,
      frac_root_bits 2 11, frac_root_bits 2 13, frac_root_bits 2 17, frac_root_bits 2 19)"

definition be32 :: "byte list \<Rightarrow> w32" where
  "be32 bs = foldl (\<lambda>acc b. push_bit 8 acc OR ucast b) 0 bs"

definition be_bytes :: "nat \<Rightarrow> nat \<Rightarrow> byte list" where
  "be_bytes width n = map (\<lambda>i. of_nat ((n div 256 ^ i) mod 256)) (rev [0..<width])"

primrec chunks :: "nat \<Rightarrow> nat \<Rightarrow> 'a list \<Rightarrow> 'a list list" where
  "chunks k 0 xs = []"
| "chunks k (Suc n) xs = take k xs # chunks k n (drop k xs)"

definition pad :: "byte list \<Rightarrow> byte list" where
  "pad bs =
     bs @ [0x80] @ replicate ((64 - (length bs + 9) mod 64) mod 64) 0 @
     be_bytes 8 ((8 * length bs) mod 2 ^ 64)"

primrec sha_extend :: "nat \<Rightarrow> w32 list \<Rightarrow> w32 list" where
  "sha_extend 0 ws = ws"
| "sha_extend (Suc n) ws =
     sha_extend n (ws @ [ssig1 (ws ! (length ws - 2)) + ws ! (length ws - 7) +
                     ssig0 (ws ! (length ws - 15)) + ws ! (length ws - 16)])"

definition schedule :: "byte list \<Rightarrow> w32 list" where
  "schedule block = sha_extend 48 (map be32 (chunks 4 16 block))"

fun sha_round :: "sha_state \<Rightarrow> w32 \<times> w32 \<Rightarrow> sha_state" where
  "sha_round (a, b, c, d, e, f, g, h) (k, w) =
     (let t1 = h + bsig1 e + Ch e f g + k + w;
          t2 = bsig0 a + Maj a b c
      in (t1 + t2, a, b, c, d + t1, e, f, g))"

fun add_state :: "sha_state \<Rightarrow> sha_state \<Rightarrow> sha_state" where
  "add_state (a, b, c, d, e, f, g, h) (a', b', c', d', e', f', g', h') =
     (a + a', b + b', c + c', d + d', e + e', f + f', g + g', h + h')"

definition compress :: "sha_state \<Rightarrow> byte list \<Rightarrow> sha_state" where
  "compress st block = add_state st (foldl sha_round st (zip sha_K (schedule block)))"

fun state_bytes :: "sha_state \<Rightarrow> byte list" where
  "state_bytes (a, b, c, d, e, f, g, h) =
     concat (map (\<lambda>w. be_bytes 4 (unat w)) [a, b, c, d, e, f, g, h])"

definition sha256 :: "byte list \<Rightarrow> byte list" where
  "sha256 msg =
     (let p = pad msg in state_bytes (foldl compress sha_init (chunks 64 (length p div 64) p)))"

definition hexdigest :: "byte list \<Rightarrow> pystr" where
  "hexdigest digest = concat (map (\<lambda>b. hex_fixed 2 (unat b)) digest)"

text \<open>
  \<open>norm\<close> is the identity on words; unfolding it on a numeral reduces the numeral below
  \<open>2 ^ 32\<close>, which keeps numerals small when a digest is computed by rewriting.
\<close>

definition norm :: "w32 \<Rightarrow> w32" where
  "norm x = of_nat (unat x)"

section \<open>The process the module runs in\<close>

text \<open>
  What the module reads from its surroundings: the environment variables (\<open>os.getenv\<close>)
  and the interpreter's digit limit for int-to-str conversion
  (\<open>sys.get_int_max_str_digits()\<close>: 4300 by default, 0 for no limit, and never a value
  between 1 and 639; an interpreter without the limit is one with limit 0). No code of
  the module writes to either.
\<close>

record process =
  environ :: "string \<rightharpoonup> pystr"
  int_max_str_digits :: nat

definition getenv :: "process \<Rightarrow> string \<Rightarrow> pystr option" where
  "getenv p name = environ p name"

definition getenv_default :: "process \<Rightarrow> string \<Rightarrow> pystr \<Rightarrow> pystr" where
  "getenv_default p name dflt = (case environ p name of None \<Rightarrow> dflt | Some v \<Rightarrow> v)"

text \<open>Python's truth value of an \<open>Optional[str]\<close>: \<open>None\<close> and \<open>''\<close> are false.\<close>

definition truthy :: "pystr option \<Rightarrow> bool" where
  "truthy v = (case v of None \<Rightarrow> False | Some s \<Rightarrow> s \<noteq> [])"

section \<open>\<open>class BlockchainService\<close>\<close>

record BlockchainService =
  infura_api_key :: "pystr option"
  network_url :: "pystr option"

text \<open>\<open>__init__\<close>: reads \<open>INFURA_API_KEY\<close> once, when the object is built.\<close>

definition init :: "process \<Rightarrow> BlockchainService" where
  "init p =
     (let key = getenv p ''INFURA_API_KEY'' in
      \<lparr> infura_api_key = key,
        network_url =
          (case key of
             None \<Rightarrow> None
           | Some k \<Rightarrow> if k \<noteq> [] then Some (S ''https://sepolia.infura.io/v3/'' @ k) else None) \<rparr>)"

text \<open>
  \<open>_generate_mock_tx_hash\<close> (Isabelle names cannot start with an underscore). The
  f-string formats the hash, then the id, then reads \<open>SECRET_KEY\<close>; \<open>data.encode()\<close>
  may raise; the result is \<open>0x\<close> and the first 40 characters of the hex digest.
\<close>

definition mock_tx_data :: "pystr \<Rightarrow> pystr \<Rightarrow> pystr \<Rightarrow> pystr" where
  "mock_tx_data certificate_hash id_text secret = certificate_hash @ S ''_'' @ id_text @ S ''_'' @ secret"

definition generate_mock_tx_hash :: "process \<Rightarrow> pystr \<Rightarrow> int \<Rightarrow> py_exception + pystr" where
  "generate_mock_tx_hash p certificate_hash institution_id =
     (case format_int (int_max_str_digits p) institution_id of
        Inl e \<Rightarrow> Inl e
      | Inr id_text \<Rightarrow>
          (let data = mock_tx_data certificate_hash id_text
                        (getenv_default p ''SECRET_KEY'' (S ''default''))
           in case encode data of
                Inl e \<Rightarrow> Inl e
              | Inr bs \<Rightarrow> Inr (S ''0x'' @ take 40 (hexdigest (sha256 bs)))))"

text \<open>\<open>_simulate_blockchain_verification\<close>.\<close>

definition startswith :: "pystr \<Rightarrow> pystr \<Rightarrow> bool" where
  "startswith s prefix = (take (length prefix) s = prefix)"

definition simulate_blockchain_verification :: "pystr \<Rightarrow> bool" where
  "simulate_blockchain_verification certificate_hash =
     (length certificate_hash > 0 \<and> startswith certificate_hash (S ''a''))"

text \<open>
  \<open>store_certificate_hash\<close>: \<open>store_body\<close> is the \<open>try\<close> block, whose value is the
  returned dict or the exception raised in it; \<open>store_certificate_hash\<close> adds the
  \<open>except Exception\<close> handler. A result \<open>Inl e\<close> of the method would be an exception
  that leaves it.
\<close>

definition store_body :: "BlockchainService \<Rightarrow> process \<Rightarrow> pystr \<Rightarrow> int \<Rightarrow> py_exception + pydict" where
  "store_body self p certificate_hash institution_id =
     (if \<not> truthy (infura_api_key self) then
        Inr [(''success'', PBool False),
             (''error'', PStr (S ''Blockchain service not configured. INFURA_API_KEY is missing.'')),
             (''tx_hash'', PNone)]
      else
        (case generate_mock_tx_hash p certificate_hash institution_id of
           Inl e \<Rightarrow> Inl e
         | Inr mock_tx_hash \<Rightarrow>
             Inr [(''success'', PBool True),
                  (''tx_hash'', PStr mock_tx_hash),
                  (''block_number'', PInt 12345678),
                  (''gas_used'', PInt 21000),
                  (''message'', PStr (S ''Certificate hash stored on blockchain successfully''))]))"

definition store_certificate_hash ::
  "BlockchainService \<Rightarrow> process \<Rightarrow> pystr \<Rightarrow> int \<Rightarrow> py_exception + pydict" where
  "store_certificate_hash self p certificate_hash institution_id =
     (case store_body self p certificate_hash institution_id of
        Inr result \<Rightarrow> Inr result
      | Inl e \<Rightarrow>
          Inr [(''success'', PBool False),
               (''error'', PStr (S ''Blockchain transaction failed: '' @ str_exception e)),
               (''tx_hash'', PNone)])"

text \<open>\<open>verify_certificate_hash\<close>, in the same two layers.\<close>

definition verify_body :: "BlockchainService \<Rightarrow> process \<Rightarrow> pystr \<Rightarrow> py_exception + pydict" where
  "verify_body self p certificate_hash =
     (if \<not> truthy (infura_api_key self) then
        Inr [(''verified'', PBool False),
             (''error'', PStr (S ''Blockchain service not configured'')),
             (''tx_hash'', PNone)]
      else
        (let is_verified = simulate_blockchain_verification certificate_hash;
             tx_hash =
               (if is_verified then
                  (case generate_mock_tx_hash p certificate_hash 1 of
                     Inl e \<Rightarrow> Inl e
                   | Inr t \<Rightarrow> Inr (PStr t))
                else Inr PNone)
         in case tx_hash of
              Inl e \<Rightarrow> Inl e
            | Inr t \<Rightarrow>
                Inr [(''verified'', PBool is_verified),
                     (''tx_hash'', t),
                     (''block_number'', if is_verified then PInt 12345678 else PNone),
                     (''message'',
                        PStr (if is_verified then S ''Certificate verified on blockchain''
                              else S ''Certificate not found on blockchain''))]))"

definition verify_certificate_hash ::
  "BlockchainService \<Rightarrow> process \<Rightarrow> pystr \<Rightarrow> py_exception + pydict" where
  "verify_certificate_hash self p certificate_hash =
     (case verify_body self p certificate_hash of
        Inr result \<Rightarrow> Inr result
      | Inl e \<Rightarrow>
          Inr [(''verified'', PBool False),
               (''error'', PStr (S ''Blockchain verification failed: '' @ str_exception e)),
               (''tx_hash'', PNone)])"

section \<open>The module: its global instance and convenience functions\<close>

text \<open>
  The module's state is the global \<open>blockchain_service\<close> together with the process it
  runs in. Neither convenience function assigns to the instance or to the environment,
  so each returns the state it was given.
\<close>

record module_state =
  blockchain_service :: BlockchainService
  proc :: process

definition load_module :: "process \<Rightarrow> module_state" where
  "load_module p = \<lparr> blockchain_service = init p, proc = p \<rparr>"

definition store_certificate_on_blockchain ::
  "module_state \<Rightarrow> pystr \<Rightarrow> int \<Rightarrow> module_state \<times> (py_exception + pydict)" where
  "store_certificate_on_blockchain m certificate_hash institution_id =
     (m, store_certificate_hash (blockchain_service m) (proc m) certificate_hash institution_id)"

definition verify_certificate_on_blockchain ::
  "module_state \<Rightarrow> pystr \<Rightarrow> module_state \<times> (py_exception + pydict)" where
  "verify_certificate_on_blockchain m certificate_hash =
     (m, verify_certificate_hash (blockchain_service m) (proc m) certificate_hash)"

text \<open>A caller's history: a sequence of calls of the two convenience functions.\<close>

datatype call = Store pystr int | Verify pystr

fun exec :: "module_state \<Rightarrow> call \<Rightarrow> module_state \<times> (py_exception + pydict)" where
  "exec m (Store h i) = store_certificate_on_blockchain m h i"
| "exec m (Verify h) = verify_certificate_on_blockchain m h"

fun run :: "module_state \<Rightarrow> call list \<Rightarrow> module_state" where
  "run m [] = m"
| "run m (c # cs) = run (fst (exec m c)) cs"

fun submitted :: "call list \<Rightarrow> pystr list" where
  "submitted [] = []"
| "submitted (Store h i # cs) = h # submitted cs"
| "submitted (Verify h # cs) = submitted cs"

text \<open>Reading an entry of a returned dict (\<open>None\<close> when the key is absent).\<close>

definition entry :: "py_exception + pydict \<Rightarrow> string \<Rightarrow> pyval option" where
  "entry res key = (case res of Inl e \<Rightarrow> None | Inr d \<Rightarrow> map_of d key)"

section \<open>Predicates used in the statements\<close>

definition has_surrogate :: "pystr \<Rightarrow> bool" where
  "has_surrogate s = list_ex is_surrogate s"

definition within_digit_limit :: "process \<Rightarrow> int \<Rightarrow> bool" where
  "within_digit_limit p i =
     (int_max_str_digits p = 0 \<or> length (str_nat (nat \<bar>i\<bar>)) \<le> int_max_str_digits p)"

definition secret_key :: "process \<Rightarrow> pystr" where
  "secret_key p = getenv_default p ''SECRET_KEY'' (S ''default'')"

text \<open>
  \<open>formattable p h i\<close>: nothing raises while \<open>_generate_mock_tx_hash\<close> builds and encodes
  its data from hash \<open>h\<close>, id \<open>i\<close> and \<open>SECRET_KEY\<close>. \<open>tx_digest data\<close> is the
  transaction hash of data that encodes.
\<close>

definition formattable :: "process \<Rightarrow> pystr \<Rightarrow> int \<Rightarrow> bool" where
  "formattable p h i =
     (within_digit_limit p i \<and> \<not> has_surrogate h \<and> \<not> has_surrogate (secret_key p))"

definition tx_digest :: "pystr \<Rightarrow> pystr" where
  "tx_digest data = S ''0x'' @ take 40 (hexdigest (sha256 (concat (map utf8_char data))))"

text \<open>A returned dict reports a failure: its flag is \<open>False\<close> and \<open>error\<close> is a string.\<close>

definition reports_failure :: "string \<Rightarrow> pydict \<Rightarrow> bool" where
  "reports_failure flag d =
     (map_of d flag = Some (PBool False) \<and>
      (case map_of d ''error'' of Some (PStr msg) \<Rightarrow> True | _ \<Rightarrow> False))"

definition is_hex_char :: "nat \<Rightarrow> bool" where
  "is_hex_char c = (c \<in> set (S ''0123456789abcdef''))"

definition is_tx_hash :: "pystr \<Rightarrow> bool" where
  "is_tx_hash t = (length t = 42 \<and> take 2 t = S ''0x'' \<and> list_all is_hex_char (drop 2 t))"

text \<open>
  The spec's data model, in its words: a content hash is valid when it is a non-empty
  hex digest of fixed length, 64 hex characters for a 256-bit hash.
\<close>

definition spec_valid_content_hash :: "pystr \<Rightarrow> bool" where
  "spec_valid_content_hash h = (length h = 64 \<and> list_all is_hex_char h)"

text \<open>Processes used as concrete inputs: two with an API key, one without.\<close>

definition configured_process :: process where
  "configured_process =
     \<lparr> environ = [''INFURA_API_KEY'' \<mapsto> S ''test-key''], int_max_str_digits = 4300 \<rparr>"

definition other_process :: process where
  "other_process =
     \<lparr> environ = [''INFURA_API_KEY'' \<mapsto> S ''another-key''], int_max_str_digits = 4300 \<rparr>"

definition bare_process :: process where
  "bare_process = \<lparr> environ = Map.empty, int_max_str_digits = 4300 \<rparr>"

text \<open>
  A valid content hash in the form of the spec's scenario (\<open>a3f1\<close> and 60 zeros), the
  bytes that \<open>_generate_mock_tx_hash\<close> digests for it and institution 7 when
  \<open>SECRET_KEY\<close> is unset and when it is \<open>later\<close>, and the process
  \<open>configured_process\<close> after other code of the program has set \<open>SECRET_KEY\<close> to
  \<open>later\<close>.
\<close>

definition example_hash :: pystr where
  "example_hash = S ''a3f1000000000000000000000000000000000000000000000000000000000000''"

definition default_data :: "byte list" where
  "default_data = concat (map utf8_char (mock_tx_data example_hash (str_int 7) (S ''default'')))"

definition later_data :: "byte list" where
  "later_data = concat (map utf8_char (mock_tx_data example_hash (str_int 7) (S ''later'')))"

definition rotated_process :: process where
  "rotated_process =
     configured_process \<lparr> environ := (environ configured_process)(''SECRET_KEY'' \<mapsto> S ''later'') \<rparr>"

section \<open>Lemmas on rendering, encoding and the digest\<close>

lemma length_hex_fixed: "length (hex_fixed w n) = w"
  by (simp add: hex_fixed_def)

lemma of_char_less_256: "(of_char c :: nat) < 256"
proof -
  have "(of_char c :: nat) = of_char c mod 256" by simp
  also have "\<dots> < 256" by (rule mod_less_divisor) simp
  finally show ?thesis .
qed

lemma not_surrogate_of_char: "\<not> is_surrogate (of_char c)"
proof -
  have "(of_char c :: nat) < 256" by (rule of_char_less_256)
  then show ?thesis unfolding is_surrogate_def by linarith
qed

lemma has_surrogate_S: "\<not> has_surrogate (S cs)"
  by (simp add: has_surrogate_def S_def list_ex_iff not_surrogate_of_char)

lemma has_surrogate_append: "has_surrogate (xs @ ys) = (has_surrogate xs \<or> has_surrogate ys)"
  by (simp add: has_surrogate_def)

lemma has_surrogate_str_nat: "\<not> has_surrogate (str_nat n)"
proof (induction n rule: str_nat.induct)
  case (1 n)
  show ?case
  proof (cases "n < 10")
    case True
    then show ?thesis
      by (subst str_nat.simps) (simp add: has_surrogate_def digit_char_def not_surrogate_of_char)
  next
    case False
    with 1 show ?thesis
      by (subst str_nat.simps)
         (simp add: has_surrogate_def digit_char_def not_surrogate_of_char)
  qed
qed

lemma utf8_from_ok:
  "\<not> has_surrogate cs \<Longrightarrow> utf8_from s pos cs = Inr (concat (map utf8_char cs))"
  by (induction cs arbitrary: pos) (simp_all add: has_surrogate_def)

lemma utf8_from_fail:
  "has_surrogate cs \<Longrightarrow> \<exists>st en. utf8_from s pos cs = Inl (UnicodeEncodeError s st en)"
proof (induction cs arbitrary: pos)
  case Nil
  then show ?case by (simp add: has_surrogate_def)
next
  case (Cons c cs)
  show ?case
  proof (cases "is_surrogate c")
    case True
    then show ?thesis by simp
  next
    case False
    with Cons.prems have "has_surrogate cs" by (simp add: has_surrogate_def)
    from Cons.IH [OF this, of "Suc pos"] obtain st en
      where "utf8_from s (Suc pos) cs = Inl (UnicodeEncodeError s st en)" by blast
    with False show ?thesis by simp
  qed
qed

lemma encode_ok: "\<not> has_surrogate s \<Longrightarrow> encode s = Inr (concat (map utf8_char s))"
  by (simp add: encode_def utf8_from_ok)

lemma encode_fail: "has_surrogate s \<Longrightarrow> \<exists>st en. encode s = Inl (UnicodeEncodeError s st en)"
  by (simp add: encode_def utf8_from_fail)

lemma length_be_bytes: "length (be_bytes w n) = w"
  by (simp add: be_bytes_def)

lemma length_state_bytes: "length (state_bytes st) = 32"
  by (cases st rule: state_bytes.cases) (simp add: length_be_bytes)

lemma length_sha256: "length (sha256 msg) = 32"
  by (simp add: sha256_def Let_def length_state_bytes)

lemma length_hexdigest: "length (hexdigest d) = 2 * length d"
  by (induction d) (simp_all add: hexdigest_def length_hex_fixed)

lemma hex_digits_all: "list_all (\<lambda>d. is_hex_char (digit_char d)) [0..<16]"
  by code_simp

lemma is_hex_char_digit: "d < 16 \<Longrightarrow> is_hex_char (digit_char d)"
  using hex_digits_all by (simp add: list_all_iff)

lemma hex_fixed_hex: "list_all is_hex_char (hex_fixed w n)"
  by (simp add: hex_fixed_def list_all_iff is_hex_char_digit)

lemma hexdigest_hex: "list_all is_hex_char (hexdigest d)"
  by (induction d) (simp_all add: hexdigest_def hex_fixed_hex)

lemma is_tx_hash_mock: "is_tx_hash (S ''0x'' @ take 40 (hexdigest (sha256 bs)))"
proof -
  have len: "length (hexdigest (sha256 bs)) = 64"
    by (simp add: length_hexdigest length_sha256)
  have "list_all is_hex_char (take 40 (hexdigest (sha256 bs)))"
    using hexdigest_hex [of "sha256 bs"] by (auto simp: list_all_iff dest: in_set_takeD)
  with len show ?thesis
    by (simp add: is_tx_hash_def S_def)
qed

section \<open>The constants and two digests, computed\<close>

text \<open>
  The constants defined from primes and roots are the ones the standard tabulates, and
  the model gives the standard's digest of \<open>abc\<close> and \<open>hashlib\<close>'s digests of
  \<open>a_1_default\<close>, the data of the transaction hash of certificate hash \<open>a\<close> for
  institution 1 when \<open>SECRET_KEY\<close> is not set, and of the two-block data of
  \<open>example_hash\<close> for institution 7 under both values of \<open>SECRET_KEY\<close>. Each step is
  a rewriting proof.
\<close>

lemma root_bits_step:
  "0 < b \<Longrightarrow> root_bits k n b r =
     root_bits k n (b - 1) (if (r + 2 ^ (b - 1)) ^ k \<le> n then r + 2 ^ (b - 1) else r)"
  by (cases b) simp_all

lemma first_primes_64:
  "first_primes 64 =
     [2, 3, 5, 7, 11, 13, 17, 19, 23, 29, 31, 37, 41, 43, 47, 53, 59, 61, 67, 71, 73, 79, 83,
      89, 97, 101, 103, 107, 109, 113, 127, 131, 137, 139, 149, 151, 157, 163, 167, 173, 179,
      181, 191, 193, 197, 199, 211, 223, 227, 229, 233, 239, 241, 251, 257, 263, 269, 271, 277,
      281, 283, 293, 307, 311]"
  by (simp add: first_primes_def)

lemma sha_K_values:
  "sha_K =
     [0x428A2F98, 0x71374491, 0xB5C0FBCF, 0xE9B5DBA5, 0x3956C25B, 0x59F111F1, 0x923F82A4, 0xAB1C5ED5,
      0xD807AA98, 0x12835B01, 0x243185BE, 0x550C7DC3, 0x72BE5D74, 0x80DEB1FE, 0x9BDC06A7, 0xC19BF174,
      0xE49B69C1, 0xEFBE4786, 0x0FC19DC6, 0x240CA1CC, 0x2DE92C6F, 0x4A7484AA, 0x5CB0A9DC, 0x76F988DA,
      0x983E5152, 0xA831C66D, 0xB00327C8, 0xBF597FC7, 0xC6E00BF3, 0xD5A79147, 0x06CA6351, 0x14292967,
      0x27B70A85, 0x2E1B2138, 0x4D2C6DFC, 0x53380D13, 0x650A7354, 0x766A0ABB, 0x81C2C92E, 0x92722C85,
      0xA2BFE8A1, 0xA81A664B, 0xC24B8B70, 0xC76C51A3, 0xD192E819, 0xD6990624, 0xF40E3585, 0x106AA070,
      0x19A4C116, 0x1E376C08, 0x2748774C, 0x34B0BCB5, 0x391C0CB3, 0x4ED8AA4A, 0x5B9CCA4F, 0x682E6FF3,
      0x748F82EE, 0x78A5636F, 0x84C87814, 0x8CC70208, 0x90BEFFFA, 0xA4506CEB, 0xBEF9A3F7, 0xC67178F2]"
  by (simp add: sha_K_def first_primes_64 frac_root_bits_def root_bits_step)

lemma sha_init_values:
  "sha_init =
     (0x6A09E667, 0xBB67AE85, 0x3C6EF372, 0xA54FF53A, 0x510E527F, 0x9B05688C, 0x1F83D9AB, 0x5BE0CD19)"
  by (simp add: sha_init_def frac_root_bits_def root_bits_step)

lemma norm_id: "norm x = x"
  by (simp add: norm_def)

lemma rotr_eval: "rotr n x = norm (drop_bit n x OR push_bit (32 - n) x)"
  by (simp add: rotr_def norm_id)

lemma sha_round_eval:
  "sha_round (a, b, c, d, e, f, g, h) (k, w) =
     (let t1 = norm (h + bsig1 e + Ch e f g + k + w);
          t2 = norm (bsig0 a + Maj a b c)
      in (norm (t1 + t2), a, b, c, norm (d + t1), e, f, g))"
  by (simp add: norm_id Let_def)

lemma extend_step:
  "0 < n \<Longrightarrow> sha_extend n ws =
     sha_extend (n - 1) (ws @ [norm (ssig1 (ws ! (length ws - 2)) + ws ! (length ws - 7) +
                     ssig0 (ws ! (length ws - 15)) + ws ! (length ws - 16))])"
  by (cases n) (simp_all add: norm_id)

lemma add_state_eval:
  "add_state (a, b, c, d, e, f, g, h) (a', b', c', d', e', f', g', h') =
     (norm (a + a'), norm (b + b'), norm (c + c'), norm (d + d'), norm (e + e'), norm (f + f'),
      norm (g + g'), norm (h + h'))"
  by (simp add: norm_id)

lemma chunks_step:
  "0 < n \<Longrightarrow> chunks k n xs = take k xs # chunks k (n - 1) (drop k xs)"
  by (cases n) simp_all

lemma replicate_step: "0 < n \<Longrightarrow> replicate n x = x # replicate (n - 1) x"
  by (cases n) simp_all

lemma upt_lists:
  "[0..<2] = [0, Suc 0]" "[0..<4] = [0, 1, 2, 3]" "[0..<8] = [0, 1, 2, 3, 4, 5, 6, 7]"
  by (simp_all add: upt_rec)

lemma pad_abc:
  "pad [0x61, 0x62, 0x63] =
     [0x61, 0x62, 0x63, 0x80, 0x00, 0x00, 0x00, 0x00, 0x00, 0x00, 0x00, 0x00, 0x00, 0x00, 0x00, 0x00,
      0x00, 0x00, 0x00, 0x00, 0x00, 0x00, 0x00, 0x00, 0x00, 0x00, 0x00, 0x00, 0x00, 0x00, 0x00, 0x00,
      0x00, 0x00, 0x00, 0x00, 0x00, 0x00, 0x00, 0x00, 0x00, 0x00, 0x00, 0x00, 0x00, 0x00, 0x00, 0x00,
      0x00, 0x00, 0x00, 0x00, 0x00, 0x00, 0x00, 0x00, 0x00, 0x00, 0x00, 0x00, 0x00, 0x00, 0x00, 0x18]"
  by (simp add: pad_def be_bytes_def upt_lists replicate_step)

lemma words_abc:
  "map be32 (chunks 4 16 (pad [0x61, 0x62, 0x63])) =
     [0x61626380, 0x00000000, 0x00000000, 0x00000000, 0x00000000, 0x00000000, 0x00000000, 0x00000000,
      0x00000000, 0x00000000, 0x00000000, 0x00000000, 0x00000000, 0x00000000, 0x00000000, 0x00000018]"
  by (simp add: pad_abc chunks_step be32_def)

lemma schedule_abc:
  "schedule (pad [0x61, 0x62, 0x63]) =
     [0x61626380, 0x00000000, 0x00000000, 0x00000000, 0x00000000, 0x00000000, 0x00000000, 0x00000000,
      0x00000000, 0x00000000, 0x00000000, 0x00000000, 0x00000000, 0x00000000, 0x00000000, 0x00000018,
      0x61626380, 0x000F0000, 0x7DA86405, 0x600003C6, 0x3E9D7B78, 0x0183FC00, 0x12DCBFDB, 0xE2E2C38E,
      0xC8215C1A, 0xB73679A2, 0xE5BC3909, 0x32663C5B, 0x9D209D67, 0xEC8726CB, 0x702138A4, 0xD3B7973B,
      0x93F5997F, 0x3B68BA73, 0xAFF4FFC1, 0xF10A5C62, 0x0A8B3996, 0x72AF830A, 0x9409E33E, 0x24641522,
      0x9F47BF94, 0xF0A64F5A, 0x3E246A79, 0x27333BA3, 0x0C4763F2, 0x840ABF27, 0x7A290D5D, 0x065C43DA,
      0xFB3E89CB, 0xCC7617DB, 0xB9E66C34, 0xA9993667, 0x84BADEDD, 0xC21462BC, 0x1487472C, 0xB20F7A99,
      0xEF57B9CD, 0xEBE6B238, 0x9FE3095E, 0x78BC8D4B, 0xA43FCF15, 0x668B2FF8, 0xEEABA2CC, 0x12B1EDEB]"
  unfolding schedule_def words_abc
  by (simp add: extend_step norm_def ssig0_def ssig1_def rotr_eval)

lemma rounds_abc:
  "foldl sha_round sha_init (zip sha_K (schedule (pad [0x61, 0x62, 0x63]))) =
     (0x506E3058, 0xD39A2165, 0x04D24D6C, 0xB85E2CE9, 0x5EF50F24, 0xFB121210, 0x948D25B6, 0x961F4894)"
  unfolding sha_K_values sha_init_values schedule_abc
  by (simp add: sha_round_eval norm_def bsig0_def bsig1_def Ch_def Maj_def rotr_eval Let_def
      del: sha_round.simps)

lemma compress_abc:
  "compress sha_init (pad [0x61, 0x62, 0x63]) =
     (0xBA7816BF, 0x8F01CFEA, 0x414140DE, 0x5DAE2223, 0xB00361A3, 0x96177A9C, 0xB410FF61, 0xF20015AD)"
  unfolding compress_def rounds_abc
  by (simp add: sha_init_values add_state_eval norm_def del: add_state.simps)

lemma sha256_abc:
  "hexdigest (sha256 [0x61, 0x62, 0x63]) =
     S ''ba7816bf8f01cfea414140de5dae2223b00361a396177a9cb410ff61f20015ad''"
proof -
  have "chunks 64 (length (pad [0x61, 0x62, 0x63]) div 64) (pad [0x61, 0x62, 0x63]) =
      [pad [0x61, 0x62, 0x63]]"
    by (simp add: pad_abc)
  then have "sha256 [0x61, 0x62, 0x63] =
      state_bytes (compress sha_init (pad [0x61, 0x62, 0x63]))"
    by (simp add: sha256_def Let_def)
  then show ?thesis
    unfolding compress_abc
    by (simp add: hexdigest_def be_bytes_def hex_fixed_def upt_lists digit_char_def S_def)
qed

lemma pad_a_1_default:
  "pad [0x61, 0x5F, 0x31, 0x5F, 0x64, 0x65, 0x66, 0x61, 0x75, 0x6C, 0x74] =
     [0x61, 0x5F, 0x31, 0x5F, 0x64, 0x65, 0x66, 0x61, 0x75, 0x6C, 0x74, 0x80, 0x00, 0x00, 0x00, 0x00,
      0x00, 0x00, 0x00, 0x00, 0x00, 0x00, 0x00, 0x00, 0x00, 0x00, 0x00, 0x00, 0x00, 0x00, 0x00, 0x00,
      0x00, 0x00, 0x00, 0x00, 0x00, 0x00, 0x00, 0x00, 0x00, 0x00, 0x00, 0x00, 0x00, 0x00, 0x00, 0x00,
      0x00, 0x00, 0x00, 0x00, 0x00, 0x00, 0x00, 0x00, 0x00, 0x00, 0x00, 0x00, 0x00, 0x00, 0x00, 0x58]"
  by (simp add: pad_def be_bytes_def upt_lists replicate_step)

lemma words_a_1_default:
  "map be32 (chunks 4 16 (pad [0x61, 0x5F, 0x31, 0x5F, 0x64, 0x65, 0x66, 0x61, 0x75, 0x6C, 0x74])) =
     [0x615F315F, 0x64656661, 0x756C7480, 0x00000000, 0x00000000, 0x00000000, 0x00000000, 0x00000000,
      0x00000000, 0x00000000, 0x00000000, 0x00000000, 0x00000000, 0x00000000, 0x00000000, 0x00000058]"
  by (simp add: pad_a_1_default chunks_step be32_def)

lemma schedule_a_1_default:
  "schedule (pad [0x61, 0x5F, 0x31, 0x5F, 0x64, 0x65, 0x66, 0x61, 0x75, 0x6C, 0x74]) =
     [0x615F315F, 0x64656661, 0x756C7480, 0x00000000, 0x00000000, 0x00000000, 0x00000000, 0x00000000,
      0x00000000, 0x00000000, 0x00000000, 0x00000000, 0x00000000, 0x00000000, 0x00000000, 0x00000058,
      0xF93B7078, 0x77F3B183, 0x4B79A1E6, 0xAEEC29EB, 0xE4DD32BB, 0x91E319A1, 0x3F33BA11, 0xE8FBF283,
      0x22392614, 0xD2A55984, 0x66AC44FD, 0xECA38D0B, 0x3CDBCE33, 0xF6535D37, 0x37E2C193, 0x1A04DE41,
      0xE9481C68, 0x810E7B96, 0x0E9B2150, 0x065EB05B, 0x6729F1C7, 0x2309AF76, 0x0669A0EA, 0x1A278479,
      0xCD425065, 0xFB1D2C47, 0xB827D288, 0x19D145E4, 0x198BF114, 0x17FD49ED, 0x8F9E0809, 0xC0F7AEE0,
      0x4D51CE33, 0xC56CE57A, 0x220AADA1, 0x0C68B6A2, 0x068E2215, 0xBD297BD9, 0xAD19C8F6, 0x405DB417,
      0x4B825C53, 0x7C97D52D, 0xC4B24193, 0x07D30BC7, 0xCA2B399D, 0x2AA049AA, 0xFDF2BD7A, 0x57214C57]"
  unfolding schedule_def words_a_1_default
  by (simp add: extend_step norm_def ssig0_def ssig1_def rotr_eval)

lemma rounds_a_1_default:
  "foldl sha_round sha_init (zip sha_K (schedule (pad [0x61, 0x5F, 0x31, 0x5F, 0x64, 0x65, 0x66, 0x61, 0x75, 0x6C, 0x74]))) =
     (0x7B498360, 0x32EC308A, 0x9B9BD112, 0x4B3EE9F2, 0x265B61D1, 0x9B6A1119, 0x10855C14, 0xC5D754DE)"
  unfolding sha_K_values sha_init_values schedule_a_1_default
  by (simp add: sha_round_eval norm_def bsig0_def bsig1_def Ch_def Maj_def rotr_eval Let_def
      del: sha_round.simps)

lemma compress_a_1_default:
  "compress sha_init (pad [0x61, 0x5F, 0x31, 0x5F, 0x64, 0x65, 0x66, 0x61, 0x75, 0x6C, 0x74]) =
     (0xE55369C7, 0xEE53DF0F, 0xD80AC484, 0xF08EDF2C, 0x7769B450, 0x366F79A5, 0x300935BF, 0x21B821F7)"
  unfolding compress_def rounds_a_1_default
  by (simp add: sha_init_values add_state_eval norm_def del: add_state.simps)

lemma sha256_a_1_default:
  "hexdigest (sha256 [0x61, 0x5F, 0x31, 0x5F, 0x64, 0x65, 0x66, 0x61, 0x75, 0x6C, 0x74]) =
     S ''e55369c7ee53df0fd80ac484f08edf2c7769b450366f79a5300935bf21b821f7''"
proof -
  have "chunks 64 (length (pad [0x61, 0x5F, 0x31, 0x5F, 0x64, 0x65, 0x66, 0x61, 0x75, 0x6C, 0x74]) div 64) (pad [0x61, 0x5F, 0x31, 0x5F, 0x64, 0x65, 0x66, 0x61, 0x75, 0x6C, 0x74]) =
      [pad [0x61, 0x5F, 0x31, 0x5F, 0x64, 0x65, 0x66, 0x61, 0x75, 0x6C, 0x74]]"
    by (simp add: pad_a_1_default)
  then have "sha256 [0x61, 0x5F, 0x31, 0x5F, 0x64, 0x65, 0x66, 0x61, 0x75, 0x6C, 0x74] =
      state_bytes (compress sha_init (pad [0x61, 0x5F, 0x31, 0x5F, 0x64, 0x65, 0x66, 0x61, 0x75, 0x6C, 0x74]))"
    by (simp add: sha256_def Let_def)
  then show ?thesis
    unfolding compress_a_1_default
    by (simp add: hexdigest_def be_bytes_def hex_fixed_def upt_lists digit_char_def S_def)
qed

lemma tx_digest_a_1_default:
  "tx_digest (S ''a_1_default'') = S ''0xe55369c7ee53df0fd80ac484f08edf2c7769b450''"
proof -
  have "concat (map utf8_char (S ''a_1_default'')) =
      [0x61, 0x5F, 0x31, 0x5F, 0x64, 0x65, 0x66, 0x61, 0x75, 0x6C, 0x74]"
    by (simp add: utf8_char_def S_def)
  then show ?thesis
    unfolding tx_digest_def
    by (simp add: sha256_a_1_default) (simp add: S_def)
qed

lemma str_int_1: "str_int 1 = S ''1''"
  by (subst str_int_def, subst str_nat.simps) (simp add: digit_char_def S_def)

lemma str_int_7: "str_int 7 = S ''7''"
  by (subst str_int_def, subst str_nat.simps) (simp add: digit_char_def S_def)

lemma default_data_bytes:
  "default_data =
     [0x61, 0x33, 0x66, 0x31, 0x30, 0x30, 0x30, 0x30, 0x30, 0x30, 0x30, 0x30, 0x30, 0x30, 0x30, 0x30,
      0x30, 0x30, 0x30, 0x30, 0x30, 0x30, 0x30, 0x30, 0x30, 0x30, 0x30, 0x30, 0x30, 0x30, 0x30, 0x30,
      0x30, 0x30, 0x30, 0x30, 0x30, 0x30, 0x30, 0x30, 0x30, 0x30, 0x30, 0x30, 0x30, 0x30, 0x30, 0x30,
      0x30, 0x30, 0x30, 0x30, 0x30, 0x30, 0x30, 0x30, 0x30, 0x30, 0x30, 0x30, 0x30, 0x30, 0x30, 0x30,
      0x5F, 0x37, 0x5F, 0x64, 0x65, 0x66, 0x61, 0x75, 0x6C, 0x74]"
  by (simp add: default_data_def mock_tx_data_def example_hash_def str_int_7 utf8_char_def S_def)

lemma pad_default_data:
  "pad default_data =
     [0x61, 0x33, 0x66, 0x31, 0x30, 0x30, 0x30, 0x30, 0x30, 0x30, 0x30, 0x30, 0x30, 0x30, 0x30, 0x30,
      0x30, 0x30, 0x30, 0x30, 0x30, 0x30, 0x30, 0x30, 0x30, 0x30, 0x30, 0x30, 0x30, 0x30, 0x30, 0x30,
      0x30, 0x30, 0x30, 0x30, 0x30, 0x30, 0x30, 0x30, 0x30, 0x30, 0x30, 0x30, 0x30, 0x30, 0x30, 0x30,
      0x30, 0x30, 0x30, 0x30, 0x30, 0x30, 0x30, 0x30, 0x30, 0x30, 0x30, 0x30, 0x30, 0x30, 0x30, 0x30,
      0x5F, 0x37, 0x5F, 0x64, 0x65, 0x66, 0x61, 0x75, 0x6C, 0x74, 0x80, 0x00, 0x00, 0x00, 0x00, 0x00,
      0x00, 0x00, 0x00, 0x00, 0x00, 0x00, 0x00, 0x00, 0x00, 0x00, 0x00, 0x00, 0x00, 0x00, 0x00, 0x00,
      0x00, 0x00, 0x00, 0x00, 0x00, 0x00, 0x00, 0x00, 0x00, 0x00, 0x00, 0x00, 0x00, 0x00, 0x00, 0x00,
      0x00, 0x00, 0x00, 0x00, 0x00, 0x00, 0x00, 0x00, 0x00, 0x00, 0x00, 0x00, 0x00, 0x00, 0x02, 0x50]"
  unfolding default_data_bytes
  by (simp add: pad_def be_bytes_def upt_lists replicate_step)

lemma words_default_data_0:
  "map be32 (chunks 4 16 (take 64 (pad default_data))) =
     [0x61336631, 0x30303030, 0x30303030, 0x30303030, 0x30303030, 0x30303030, 0x30303030, 0x30303030,
      0x30303030, 0x30303030, 0x30303030, 0x30303030, 0x30303030, 0x30303030, 0x30303030, 0x30303030]"
  unfolding pad_default_data
  by (simp add: chunks_step be32_def)

lemma schedule_default_data_0:
  "schedule (take 64 (pad default_data)) =
     [0x61336631, 0x30303030, 0x30303030, 0x30303030, 0x30303030, 0x30303030, 0x30303030, 0x30303030,
      0x30303030, 0x30303030, 0x30303030, 0x30303030, 0x30303030, 0x30303030, 0x30303030, 0x30303030,
      0x19E012DD, 0xE8DCDCDC, 0xD5FE2292, 0xC09AA90C, 0x9FF91A92, 0xCC62A9BE, 0x7907AD0F, 0xB656548E,
      0xA6AF89BE, 0x5193D5A0, 0x90F67006, 0xCB03FB3A, 0x5D24EC51, 0x966B43C8, 0x3CA6BB35, 0x5E51011C,
      0x8A6410FB, 0xD23E0AEC, 0xD7139B9B, 0x524388D0, 0xC36AD763, 0xB9013D38, 0xA74BBD45, 0x85C67907,
      0xE20A93C8, 0x9F683BDD, 0x9118B307, 0x3B2BFC0F, 0xB9014170, 0x82608655, 0xBE56D5E1, 0x768326E8,
      0x1B8853F3, 0x26B5F4CB, 0x7E9986E6, 0xBA6DA4C9, 0x6297C053, 0x4F220D2B, 0xB7FCFFB9, 0x11E953CC,
      0x8EEB4BA7, 0xD35E76A0, 0xFE1BCAFD, 0x398265A7, 0x3F1FC635, 0x1A94B9F8, 0x039BA87A, 0xC2EEFA00]"
  unfolding schedule_def words_default_data_0
  by (simp add: extend_step norm_def ssig0_def ssig1_def rotr_eval)

lemma rounds_default_data_0:
  "foldl sha_round sha_init
     (zip sha_K (schedule (take 64 (pad default_data)))) =
     (0xDA71724B, 0x85DCA3B2, 0xB4D1626C, 0x11E81D01, 0x4FA0DC50, 0x3AD23EAB, 0xF930EE92, 0x331C1E83)"
  unfolding sha_K_values sha_init_values schedule_default_data_0
  by (simp add: sha_round_eval norm_def bsig0_def bsig1_def Ch_def Maj_def rotr_eval Let_def
      del: sha_round.simps)

lemma compress_default_data_0:
  "compress sha_init (take 64 (pad default_data)) =
     (0x447B58B2, 0x41445237, 0xF14055DE, 0xB738123B, 0xA0AF2ECF, 0xD5D7A737, 0x18B4C83D, 0x8EFCEB9C)"
  unfolding compress_def rounds_default_data_0
  by (simp add: sha_init_values add_state_eval norm_def del: add_state.simps)

lemma words_default_data_1:
  "map be32 (chunks 4 16 (take 64 (drop 64 (pad default_data)))) =
     [0x5F375F64, 0x65666175, 0x6C748000, 0x00000000, 0x00000000, 0x00000000, 0x00000000, 0x00000000,
      0x00000000, 0x00000000, 0x00000000, 0x00000000, 0x00000000, 0x00000000, 0x00000000, 0x00000250]"
  unfolding pad_default_data
  by (simp add: chunks_step be32_def)

lemma schedule_default_data_1:
  "schedule (take 64 (drop 64 (pad default_data))) =
     [0x5F375F64, 0x65666175, 0x6C748000, 0x00000000, 0x00000000, 0x00000000, 0x00000000, 0x00000000,
      0x00000000, 0x00000000, 0x00000000, 0x00000000, 0x00000000, 0x00000000, 0x00000000, 0x00000250,
      0xDD72B919, 0x941EC392, 0x780D09B9, 0xB99E1F3C, 0x25F59045, 0xCC57AC7B, 0x7A234D70, 0x00F44363,
      0x63277E18, 0x21EAE72D, 0x0A761364, 0x5570DEB6, 0x9833C66C, 0xEEBC0991, 0x3D66179F, 0x6F3BAB00,
      0x4FE001D2, 0x7F30B0AD, 0xB7CE5039, 0x8B12D24F, 0xFBF46222, 0x79F6E635, 0x7D9278E3, 0xE3BB6DA7,
      0x3D80A5FB, 0x029C47AE, 0x2D7FEE43, 0x3834E031, 0x597BDC1A, 0x1490FA1D, 0x9EB2D8A3, 0xBC1BB1A0,
      0x03118271, 0x4D1429A6, 0x1C61331D, 0xB8853308, 0xACB001A6, 0xAFE6DD7F, 0xC354BDD2, 0x74BEA664,
      0xA1B5ED6D, 0x1F46DF77, 0x8EB2E6AD, 0x61D2BA38, 0x3F400F62, 0xC4ECD975, 0xD45775A3, 0xD86F5478]"
  unfolding schedule_def words_default_data_1
  by (simp add: extend_step norm_def ssig0_def ssig1_def rotr_eval)

lemma rounds_default_data_1:
  "foldl sha_round (0x447B58B2, 0x41445237, 0xF14055DE, 0xB738123B, 0xA0AF2ECF, 0xD5D7A737, 0x18B4C83D, 0x8EFCEB9C)
     (zip sha_K (schedule (take 64 (drop 64 (pad default_data))))) =
     (0xC586A685, 0x933BB6BF, 0x4A8543F0, 0x75732EF4, 0x01F255EE, 0x6EF57E34, 0xF7F58B05, 0xF3DF79B7)"
  unfolding sha_K_values schedule_default_data_1
  by (simp add: sha_round_eval norm_def bsig0_def bsig1_def Ch_def Maj_def rotr_eval Let_def
      del: sha_round.simps)

lemma compress_default_data_1:
  "compress (0x447B58B2, 0x41445237, 0xF14055DE, 0xB738123B, 0xA0AF2ECF, 0xD5D7A737, 0x18B4C83D, 0x8EFCEB9C) (take 64 (drop 64 (pad default_data))) =
     (0x0A01FF37, 0xD48008F6, 0x3BC599CE, 0x2CAB412F, 0xA2A184BD, 0x44CD256B, 0x10AA5342, 0x82DC6553)"
  unfolding compress_def rounds_default_data_1
  by (simp add: add_state_eval norm_def del: add_state.simps)

lemma sha256_default_data:
  "hexdigest (sha256 default_data) =
     S ''0a01ff37d48008f63bc599ce2cab412fa2a184bd44cd256b10aa534282dc6553''"
proof -
  have "length (pad default_data) = 128"
    by (simp add: pad_default_data)
  then have "chunks 64 (length (pad default_data) div 64) (pad default_data) =
      [take 64 (pad default_data), take 64 (drop 64 (pad default_data))]"
    by (simp add: chunks_step)
  then have "sha256 default_data =
      state_bytes (compress (compress sha_init (take 64 (pad default_data))) (take 64 (drop 64 (pad default_data))))"
    by (simp add: sha256_def Let_def)
  then show ?thesis
    unfolding compress_default_data_0 compress_default_data_1
    by (simp add: hexdigest_def be_bytes_def hex_fixed_def upt_lists digit_char_def S_def)
qed

lemma tx_digest_default_data:
  "tx_digest (mock_tx_data example_hash (str_int 7) (S ''default'')) =
     S ''0x0a01ff37d48008f63bc599ce2cab412fa2a184bd''"
  unfolding tx_digest_def default_data_def [symmetric]
  by (simp add: sha256_default_data) (simp add: S_def)

lemma later_data_bytes:
  "later_data =
     [0x61, 0x33, 0x66, 0x31, 0x30, 0x30, 0x30, 0x30, 0x30, 0x30, 0x30, 0x30, 0x30, 0x30, 0x30, 0x30,
      0x30, 0x30, 0x30, 0x30, 0x30, 0x30, 0x30, 0x30, 0x30, 0x30, 0x30, 0x30, 0x30, 0x30, 0x30, 0x30,
      0x30, 0x30, 0x30, 0x30, 0x30, 0x30, 0x30, 0x30, 0x30, 0x30, 0x30, 0x30, 0x30, 0x30, 0x30, 0x30,
      0x30, 0x30, 0x30, 0x30, 0x30, 0x30, 0x30, 0x30, 0x30, 0x30, 0x30, 0x30, 0x30, 0x30, 0x30, 0x30,
      0x5F, 0x37, 0x5F, 0x6C, 0x61, 0x74, 0x65, 0x72]"
  by (simp add: later_data_def mock_tx_data_def example_hash_def str_int_7 utf8_char_def S_def)

lemma pad_later_data:
  "pad later_data =
     [0x61, 0x33, 0x66, 0x31, 0x30, 0x30, 0x30, 0x30, 0x30, 0x30, 0x30, 0x30, 0x30, 0x30, 0x30, 0x30,
      0x30, 0x30, 0x30, 0x30, 0x30, 0x30, 0x30, 0x30, 0x30, 0x30, 0x30, 0x30, 0x30, 0x30, 0x30, 0x30,
      0x30, 0x30, 0x30, 0x30, 0x30, 0x30, 0x30, 0x30, 0x30, 0x30, 0x30, 0x30, 0x30, 0x30, 0x30, 0x30,
      0x30, 0x30, 0x30, 0x30, 0x30, 0x30, 0x30, 0x30, 0x30, 0x30, 0x30, 0x30, 0x30, 0x30, 0x30, 0x30,
      0x5F, 0x37, 0x5F, 0x6C, 0x61, 0x74, 0x65, 0x72, 0x80, 0x00, 0x00, 0x00, 0x00, 0x00, 0x00, 0x00,
      0x00, 0x00, 0x00, 0x00, 0x00, 0x00, 0x00, 0x00, 0x00, 0x00, 0x00, 0x00, 0x00, 0x00, 0x00, 0x00,
      0x00, 0x00, 0x00, 0x00, 0x00, 0x00, 0x00, 0x00, 0x00, 0x00, 0x00, 0x00, 0x00, 0x00, 0x00, 0x00,
      0x00, 0x00, 0x00, 0x00, 0x00, 0x00, 0x00, 0x00, 0x00, 0x00, 0x00, 0x00, 0x00, 0x00, 0x02, 0x40]"
  unfolding later_data_bytes
  by (simp add: pad_def be_bytes_def upt_lists replicate_step)

lemma words_later_data_0:
  "map be32 (chunks 4 16 (take 64 (pad later_data))) =
     [0x61336631, 0x30303030, 0x30303030, 0x30303030, 0x30303030, 0x30303030, 0x30303030, 0x30303030,
      0x30303030, 0x30303030, 0x30303030, 0x30303030, 0x30303030, 0x30303030, 0x30303030, 0x30303030]"
  unfolding pad_later_data
  by (simp add: chunks_step be32_def)

lemma schedule_later_data_0:
  "schedule (take 64 (pad later_data)) =
     [0x61336631, 0x30303030, 0x30303030, 0x30303030, 0x30303030, 0x30303030, 0x30303030, 0x30303030,
      0x30303030, 0x30303030, 0x30303030, 0x30303030, 0x30303030, 0x30303030, 0x30303030, 0x30303030,
      0x19E012DD, 0xE8DCDCDC, 0xD5FE2292, 0xC09AA90C, 0x9FF91A92, 0xCC62A9BE, 0x7907AD0F, 0xB656548E,
      0xA6AF89BE, 0x5193D5A0, 0x90F67006, 0xCB03FB3A, 0x5D24EC51, 0x966B43C8, 0x3CA6BB35, 0x5E51011C,
      0x8A6410FB, 0xD23E0AEC, 0xD7139B9B, 0x524388D0, 0xC36AD763, 0xB9013D38, 0xA74BBD45, 0x85C67907,
      0xE20A93C8, 0x9F683BDD, 0x9118B307, 0x3B2BFC0F, 0xB9014170, 0x82608655, 0xBE56D5E1, 0x768326E8,
      0x1B8853F3, 0x26B5F4CB, 0x7E9986E6, 0xBA6DA4C9, 0x6297C053, 0x4F220D2B, 0xB7FCFFB9, 0x11E953CC,
      0x8EEB4BA7, 0xD35E76A0, 0xFE1BCAFD, 0x398265A7, 0x3F1FC635, 0x1A94B9F8, 0x039BA87A, 0xC2EEFA00]"
  unfolding schedule_def words_later_data_0
  by (simp add: extend_step norm_def ssig0_def ssig1_def rotr_eval)

lemma rounds_later_data_0:
  "foldl sha_round sha_init
     (zip sha_K (schedule (take 64 (pad later_data)))) =
     (0xDA71724B, 0x85DCA3B2, 0xB4D1626C, 0x11E81D01, 0x4FA0DC50, 0x3AD23EAB, 0xF930EE92, 0x331C1E83)"
  unfolding sha_K_values sha_init_values schedule_later_data_0
  by (simp add: sha_round_eval norm_def bsig0_def bsig1_def Ch_def Maj_def rotr_eval Let_def
      del: sha_round.simps)

lemma compress_later_data_0:
  "compress sha_init (take 64 (pad later_data)) =
     (0x447B58B2, 0x41445237, 0xF14055DE, 0xB738123B, 0xA0AF2ECF, 0xD5D7A737, 0x18B4C83D, 0x8EFCEB9C)"
  unfolding compress_def rounds_later_data_0
  by (simp add: sha_init_values add_state_eval norm_def del: add_state.simps)

lemma words_later_data_1:
  "map be32 (chunks 4 16 (take 64 (drop 64 (pad later_data)))) =
     [0x5F375F6C, 0x61746572, 0x80000000, 0x00000000, 0x00000000, 0x00000000, 0x00000000, 0x00000000,
      0x00000000, 0x00000000, 0x00000000, 0x00000000, 0x00000000, 0x00000000, 0x00000000, 0x00000240]"
  unfolding pad_later_data
  by (simp add: chunks_step be32_def)

lemma schedule_later_data_1:
  "schedule (take 64 (drop 64 (pad later_data))) =
     [0x5F375F6C, 0x61746572, 0x80000000, 0x00000000, 0x00000000, 0x00000000, 0x00000000, 0x00000000,
      0x00000000, 0x00000000, 0x00000000, 0x00000000, 0x00000000, 0x00000000, 0x00000000, 0x00000240,
      0x50E85BA5, 0x73DC8572, 0xA6B2387F, 0xD20B80B4, 0x5B198B01, 0xB07871A4, 0xF4F642CD, 0x87B32BD4,
      0x5CDEFEE7, 0x97637864, 0x72C3F2FF, 0x2E348C84, 0x37B55969, 0xCCCF62CC, 0x0FD77C9A, 0x10415D46,
      0x05EA3D2A, 0xD1351DC3, 0xC1E0515F, 0xA2440EC8, 0x8DA4216E, 0x5CAA1C88, 0x0CFDC142, 0x55FB2D5B,
      0x8C7A215F, 0x5859AD56, 0x986B1E05, 0x21B42BB0, 0xD9F71D9F, 0x55376093, 0xAC9640F9, 0xD5061F2F,
      0x2180EE97, 0xE9CFC85D, 0xD4E3B32F, 0x5E4ED599, 0x2EB0AA84, 0xAF7F3571, 0x995F65A4, 0x1A79AD06,
      0xA17882FF, 0xF01F8483, 0xB65C539D, 0x673D5416, 0x212FA59F, 0x661C861E, 0xB04567F4, 0x5C2AEF89]"
  unfolding schedule_def words_later_data_1
  by (simp add: extend_step norm_def ssig0_def ssig1_def rotr_eval)

lemma rounds_later_data_1:
  "foldl sha_round (0x447B58B2, 0x41445237, 0xF14055DE, 0xB738123B, 0xA0AF2ECF, 0xD5D7A737, 0x18B4C83D, 0x8EFCEB9C)
     (zip sha_K (schedule (take 64 (drop 64 (pad later_data))))) =
     (0x9EDEA37F, 0x9798B8A4, 0x0D54308F, 0xFF328EC9, 0xB93565E4, 0x21B67610, 0x738A25C5, 0x9BED476B)"
  unfolding sha_K_values schedule_later_data_1
  by (simp add: sha_round_eval norm_def bsig0_def bsig1_def Ch_def Maj_def rotr_eval Let_def
      del: sha_round.simps)

lemma compress_later_data_1:
  "compress (0x447B58B2, 0x41445237, 0xF14055DE, 0xB738123B, 0xA0AF2ECF, 0xD5D7A737, 0x18B4C83D, 0x8EFCEB9C) (take 64 (drop 64 (pad later_data))) =
     (0xE359FC31, 0xD8DD0ADB, 0xFE94866D, 0xB66AA104, 0x59E494B3, 0xF78E1D47, 0x8C3EEE02, 0x2AEA3307)"
  unfolding compress_def rounds_later_data_1
  by (simp add: add_state_eval norm_def del: add_state.simps)

lemma sha256_later_data:
  "hexdigest (sha256 later_data) =
     S ''e359fc31d8dd0adbfe94866db66aa10459e494b3f78e1d478c3eee022aea3307''"
proof -
  have "length (pad later_data) = 128"
    by (simp add: pad_later_data)
  then have "chunks 64 (length (pad later_data) div 64) (pad later_data) =
      [take 64 (pad later_data), take 64 (drop 64 (pad later_data))]"
    by (simp add: chunks_step)
  then have "sha256 later_data =
      state_bytes (compress (compress sha_init (take 64 (pad later_data))) (take 64 (drop 64 (pad later_data))))"
    by (simp add: sha256_def Let_def)
  then show ?thesis
    unfolding compress_later_data_0 compress_later_data_1
    by (simp add: hexdigest_def be_bytes_def hex_fixed_def upt_lists digit_char_def S_def)
qed

lemma tx_digest_later_data:
  "tx_digest (mock_tx_data example_hash (str_int 7) (S ''later'')) =
     S ''0xe359fc31d8dd0adbfe94866db66aa10459e494b3''"
  unfolding tx_digest_def later_data_def [symmetric]
  by (simp add: sha256_later_data) (simp add: S_def)

section \<open>What the two methods return\<close>

lemma has_surrogate_str_int: "\<not> has_surrogate (str_int i)"
  by (simp add: str_int_def has_surrogate_append has_surrogate_S has_surrogate_str_nat)

lemma has_surrogate_data:
  "has_surrogate (mock_tx_data h (str_int i) k) = (has_surrogate h \<or> has_surrogate k)"
  by (simp add: mock_tx_data_def has_surrogate_append has_surrogate_S has_surrogate_str_int)

lemma format_int_ok:
  "within_digit_limit p i \<Longrightarrow> format_int (int_max_str_digits p) i = Inr (str_int i)"
  by (auto simp: within_digit_limit_def format_int_def)

lemma format_int_fail:
  "\<not> within_digit_limit p i \<Longrightarrow> \<exists>msg. format_int (int_max_str_digits p) i = Inl (ValueError msg)"
  by (auto simp: within_digit_limit_def format_int_def)

lemma generate_ok:
  "formattable p h i \<Longrightarrow>
   generate_mock_tx_hash p h i = Inr (tx_digest (mock_tx_data h (str_int i) (secret_key p)))"
  by (simp add: formattable_def generate_mock_tx_hash_def format_int_ok Let_def
      secret_key_def [symmetric] encode_ok has_surrogate_data tx_digest_def)

lemma generate_fail:
  assumes "\<not> formattable p h i"
  shows "\<exists>e. generate_mock_tx_hash p h i = Inl e"
proof (cases "within_digit_limit p i")
  case False
  from format_int_fail [OF this] show ?thesis
    by (auto simp: generate_mock_tx_hash_def)
next
  case True
  with assms have "has_surrogate (mock_tx_data h (str_int i) (secret_key p))"
    by (simp add: formattable_def has_surrogate_data)
  from encode_fail [OF this] show ?thesis
    using True
    by (auto simp: generate_mock_tx_hash_def format_int_ok Let_def secret_key_def [symmetric])
qed

lemma within_digit_limit_one: "within_digit_limit p 1"
  by (subst within_digit_limit_def, subst str_nat.simps) auto

lemma formattable_one:
  "formattable p h 1 = (\<not> has_surrogate h \<and> \<not> has_surrogate (secret_key p))"
  by (simp add: formattable_def within_digit_limit_one)

lemma store_ok:
  "truthy (infura_api_key self) \<Longrightarrow> formattable p h i \<Longrightarrow>
   store_certificate_hash self p h i =
     Inr [(''success'', PBool True),
          (''tx_hash'', PStr (tx_digest (mock_tx_data h (str_int i) (secret_key p)))),
          (''block_number'', PInt 12345678),
          (''gas_used'', PInt 21000),
          (''message'', PStr (S ''Certificate hash stored on blockchain successfully''))]"
  by (simp add: store_certificate_hash_def store_body_def generate_ok)

lemma store_raised:
  "truthy (infura_api_key self) \<Longrightarrow> \<not> formattable p h i \<Longrightarrow>
   \<exists>e. store_body self p h i = Inl e \<and>
     store_certificate_hash self p h i =
       Inr [(''success'', PBool False),
            (''error'', PStr (S ''Blockchain transaction failed: '' @ str_exception e)),
            (''tx_hash'', PNone)]"
  using generate_fail [of p h i]
  by (auto simp: store_certificate_hash_def store_body_def)

lemma store_unconfigured:
  "\<not> truthy (infura_api_key self) \<Longrightarrow>
   store_certificate_hash self p h i =
     Inr [(''success'', PBool False),
          (''error'', PStr (S ''Blockchain service not configured. INFURA_API_KEY is missing.'')),
          (''tx_hash'', PNone)]"
  by (simp add: store_certificate_hash_def store_body_def)

lemma verify_not_prefixed:
  "truthy (infura_api_key self) \<Longrightarrow> \<not> simulate_blockchain_verification h \<Longrightarrow>
   verify_certificate_hash self p h =
     Inr [(''verified'', PBool False),
          (''tx_hash'', PNone),
          (''block_number'', PNone),
          (''message'', PStr (S ''Certificate not found on blockchain''))]"
  by (simp add: verify_certificate_hash_def verify_body_def)

lemma verify_ok:
  "truthy (infura_api_key self) \<Longrightarrow> simulate_blockchain_verification h \<Longrightarrow>
   formattable p h 1 \<Longrightarrow>
   verify_certificate_hash self p h =
     Inr [(''verified'', PBool True),
          (''tx_hash'', PStr (tx_digest (mock_tx_data h (str_int 1) (secret_key p)))),
          (''block_number'', PInt 12345678),
          (''message'', PStr (S ''Certificate verified on blockchain''))]"
  by (simp add: verify_certificate_hash_def verify_body_def generate_ok)

lemma verify_raised:
  "truthy (infura_api_key self) \<Longrightarrow> simulate_blockchain_verification h \<Longrightarrow>
   \<not> formattable p h 1 \<Longrightarrow>
   \<exists>e. verify_body self p h = Inl e \<and>
     verify_certificate_hash self p h =
       Inr [(''verified'', PBool False),
            (''error'', PStr (S ''Blockchain verification failed: '' @ str_exception e)),
            (''tx_hash'', PNone)]"
  using generate_fail [of p h 1]
  by (auto simp: verify_certificate_hash_def verify_body_def)

lemma verify_unconfigured:
  "\<not> truthy (infura_api_key self) \<Longrightarrow>
   verify_certificate_hash self p h =
     Inr [(''verified'', PBool False),
          (''error'', PStr (S ''Blockchain service not configured'')),
          (''tx_hash'', PNone)]"
  by (simp add: verify_certificate_hash_def verify_body_def)

lemma simulate_iff: "simulate_blockchain_verification h = startswith h (S ''a'')"
  by (auto simp: simulate_blockchain_verification_def startswith_def S_def)

lemma fst_exec: "fst (exec m c) = m"
  by (cases c)
     (simp_all add: store_certificate_on_blockchain_def verify_certificate_on_blockchain_def)

lemma run_unchanged: "run m cs = m"
  by (induction cs arbitrary: m) (simp_all add: fst_exec)

lemma configured_truthy: "truthy (infura_api_key (init configured_process))"
  by (simp add: init_def getenv_def configured_process_def truthy_def S_def)

lemma configured_secret: "secret_key configured_process = S ''default''"
  by (simp add: secret_key_def getenv_default_def configured_process_def)

lemma configured_limit: "within_digit_limit configured_process 1"
  by (rule within_digit_limit_one)

lemma store_same_secret:
  "secret_key p1 = secret_key p2 \<Longrightarrow> int_max_str_digits p1 = int_max_str_digits p2 \<Longrightarrow>
   store_certificate_hash self p1 h i = store_certificate_hash self p2 h i"
proof -
  assume sk: "secret_key p1 = secret_key p2"
    and lim: "int_max_str_digits p1 = int_max_str_digits p2"
  have sk': "getenv_default p1 ''SECRET_KEY'' (S ''default'') =
      getenv_default p2 ''SECRET_KEY'' (S ''default'')"
    using sk by (simp add: secret_key_def)
  have "generate_mock_tx_hash p1 h i = generate_mock_tx_hash p2 h i"
    by (simp only: generate_mock_tx_hash_def sk' lim)
  then show ?thesis
    by (simp add: store_certificate_hash_def store_body_def)
qed

lemma rotated_secret: "secret_key rotated_process = S ''later''"
  by (simp add: secret_key_def getenv_default_def rotated_process_def)

lemma example_formattable:
  "formattable configured_process example_hash 7"
  "formattable rotated_process example_hash 7"
proof -
  have "within_digit_limit configured_process 7" "within_digit_limit rotated_process 7"
    by (subst within_digit_limit_def, subst str_nat.simps,
        simp add: configured_process_def rotated_process_def)+
  then show "formattable configured_process example_hash 7"
    "formattable rotated_process example_hash 7"
    by (simp_all add: formattable_def example_hash_def has_surrogate_S configured_secret
        rotated_secret)
qed

lemma example_store_default:
  "store_certificate_hash (init configured_process) configured_process example_hash 7 =
     Inr [(''success'', PBool True),
          (''tx_hash'', PStr (S ''0x0a01ff37d48008f63bc599ce2cab412fa2a184bd'')),
          (''block_number'', PInt 12345678),
          (''gas_used'', PInt 21000),
          (''message'', PStr (S ''Certificate hash stored on blockchain successfully''))]"
  using store_ok [OF configured_truthy example_formattable(1)]
  by (simp only: configured_secret tx_digest_default_data)

lemma example_store_later:
  "store_certificate_hash (init configured_process) rotated_process example_hash 7 =
     Inr [(''success'', PBool True),
          (''tx_hash'', PStr (S ''0xe359fc31d8dd0adbfe94866db66aa10459e494b3'')),
          (''block_number'', PInt 12345678),
          (''gas_used'', PInt 21000),
          (''message'', PStr (S ''Certificate hash stored on blockchain successfully''))]"
  using store_ok [OF configured_truthy example_formattable(2)]
  by (simp only: rotated_secret tx_digest_later_data)

section \<open>The claims\<close>

subsection \<open>C1: verification of a hash that was never submitted\<close>

text \<open>
  Claim C1 says that verification returns \<open>verified = False\<close> for every hash that was
  never submitted, and that the verdict is never derived from the hash's text. The
  module keeps no record of submissions: with \<open>INFURA_API_KEY\<close> set and no call made
  before, the hash \<open>a\<close> is reported as verified.
\<close>

theorem C1_counterexample:
  "S ''a'' \<notin> set (submitted []) \<and>
   truthy (infura_api_key (blockchain_service (load_module configured_process))) \<and>
   snd (exec (run (load_module configured_process) []) (Verify (S ''a''))) =
     Inr [(''verified'', PBool True),
          (''tx_hash'', PStr (S ''0xe55369c7ee53df0fd80ac484f08edf2c7769b450'')),
          (''block_number'', PInt 12345678),
          (''message'', PStr (S ''Certificate verified on blockchain''))]"
proof -
  have a: "simulate_blockchain_verification (S ''a'')"
    by (simp add: simulate_iff startswith_def S_def)
  have f: "formattable configured_process (S ''a'') 1"
    by (simp add: formattable_one has_surrogate_S configured_secret)
  have "mock_tx_data (S ''a'') (str_int 1) (secret_key configured_process) = S ''a_1_default''"
    by (simp add: mock_tx_data_def str_int_1 configured_secret S_def)
  with verify_ok [OF configured_truthy a f]
  have "verify_certificate_hash (init configured_process) configured_process (S ''a'') =
     Inr [(''verified'', PBool True),
          (''tx_hash'', PStr (S ''0xe55369c7ee53df0fd80ac484f08edf2c7769b450'')),
          (''block_number'', PInt 12345678),
          (''message'', PStr (S ''Certificate verified on blockchain''))]"
    by (simp only: tx_digest_a_1_default)
  then show ?thesis
    by (simp add: load_module_def verify_certificate_on_blockchain_def configured_truthy)
qed

text \<open>
  Claim C1 as amended: what verification returns for a hash does not depend on the
  calls made before it. After any two histories of anchoring and verification calls,
  one that submitted the hash and one that did not, the result is the same.
\<close>

theorem verify_ignores_history:
  "snd (exec (run m cs1) (Verify h)) = snd (exec (run m cs2) (Verify h))"
  by (simp add: run_unchanged)

subsection \<open>C2: hashes that begin with \<open>a\<close>\<close>

text \<open>
  Claim C2 says that, with the service configured, verification reports success for
  every hash whose first character is \<open>a\<close>. The string \<open>a\<close> followed by the lone
  surrogate U+D800 is a Python \<open>str\<close> that begins with \<open>a\<close>; encoding the data of its
  transaction hash raises \<open>UnicodeEncodeError\<close>, the handler catches it, and the result
  has \<open>verified = False\<close>.
\<close>

theorem C2_counterexample:
  "valid_str [97, 0xD800] \<and>
   truthy (infura_api_key (init configured_process)) \<and>
   startswith [97, 0xD800] (S ''a'') \<and>
   entry (verify_certificate_hash (init configured_process) configured_process [97, 0xD800])
     ''verified'' = Some (PBool False)"
proof -
  have a: "simulate_blockchain_verification [97, 0xD800]"
    by (simp add: simulate_iff startswith_def S_def)
  have "\<not> formattable configured_process [97, 0xD800] 1"
    by (simp add: formattable_one has_surrogate_def is_surrogate_def)
  from verify_raised [OF configured_truthy a this] show ?thesis
    using a by (auto simp: configured_truthy simulate_iff entry_def valid_str_def)
qed

text \<open>
  Claim C2 as amended: with the service configured, verification reports success, with
  the transaction hash of the data and block number 12345678, for every hash that begins
  with \<open>a\<close> when neither the hash nor \<open>SECRET_KEY\<close> holds a surrogate code point,
  after any history of calls, whether or not the hash was stored in it.
\<close>

theorem verify_prefix_a:
  "truthy (infura_api_key (blockchain_service m)) \<Longrightarrow> startswith h (S ''a'') \<Longrightarrow>
   \<not> has_surrogate h \<Longrightarrow> \<not> has_surrogate (secret_key (proc m)) \<Longrightarrow>
   snd (exec (run m cs) (Verify h)) =
     Inr [(''verified'', PBool True),
          (''tx_hash'', PStr (tx_digest (mock_tx_data h (str_int 1) (secret_key (proc m))))),
          (''block_number'', PInt 12345678),
          (''message'', PStr (S ''Certificate verified on blockchain''))]"
  by (simp add: run_unchanged verify_certificate_on_blockchain_def verify_ok simulate_iff
      formattable_one)

theorem verify_prefix_a_witness:
  "S ''a3f1'' \<notin> set (submitted [Store (S ''b3f1'') 7]) \<and>
   entry (snd (exec (run (load_module configured_process) [Store (S ''b3f1'') 7])
                 (Verify (S ''a3f1''))))
     ''verified'' = Some (PBool True) \<and>
   entry (snd (exec (run (load_module configured_process) [Store (S ''b3f1'') 7])
                 (Verify (S ''a3f1''))))
     ''block_number'' = Some (PInt 12345678)"
proof -
  have 0: "truthy (infura_api_key (blockchain_service (load_module configured_process)))"
    by (simp add: load_module_def configured_truthy)
  have 1: "startswith (S ''a3f1'') (S ''a'')" by (simp add: startswith_def S_def)
  have 2: "\<not> has_surrogate (S ''a3f1'')" by (rule has_surrogate_S)
  have 3: "\<not> has_surrogate (secret_key (proc (load_module configured_process)))"
    by (simp add: load_module_def configured_secret has_surrogate_S)
  have "S ''a3f1'' \<notin> set (submitted [Store (S ''b3f1'') 7])"
    by (simp add: S_def)
  then show ?thesis
    by (simp only: verify_prefix_a [OF 0 1 2 3]) (simp add: entry_def)
qed

subsection \<open>C3: anchoring twice\<close>

text \<open>
  Claim C3 says that two calls of the anchoring operation with the same arguments return
  the same record. The method keeps no record and reads \<open>SECRET_KEY\<close> at every call:
  when other code of the program sets \<open>SECRET_KEY\<close> to \<open>later\<close> between the two calls,
  the same module, valid hash and institution id give two records with different
  transaction hashes.
\<close>

theorem C3_counterexample:
  "spec_valid_content_hash example_hash \<and>
   snd (exec (load_module configured_process) (Store example_hash 7)) =
     Inr [(''success'', PBool True),
          (''tx_hash'', PStr (S ''0x0a01ff37d48008f63bc599ce2cab412fa2a184bd'')),
          (''block_number'', PInt 12345678),
          (''gas_used'', PInt 21000),
          (''message'', PStr (S ''Certificate hash stored on blockchain successfully''))] \<and>
   snd (exec (fst (exec (load_module configured_process) (Store example_hash 7))
                \<lparr> proc := rotated_process \<rparr>)
          (Store example_hash 7)) =
     Inr [(''success'', PBool True),
          (''tx_hash'', PStr (S ''0xe359fc31d8dd0adbfe94866db66aa10459e494b3'')),
          (''block_number'', PInt 12345678),
          (''gas_used'', PInt 21000),
          (''message'', PStr (S ''Certificate hash stored on blockchain successfully''))] \<and>
   S ''0x0a01ff37d48008f63bc599ce2cab412fa2a184bd'' \<noteq>
     S ''0xe359fc31d8dd0adbfe94866db66aa10459e494b3''"
proof -
  have valid: "spec_valid_content_hash example_hash"
    by (simp add: spec_valid_content_hash_def example_hash_def S_def is_hex_char_def)
  have second: "fst (exec (load_module configured_process) (Store example_hash 7))
      \<lparr> proc := rotated_process \<rparr> =
      \<lparr> blockchain_service = init configured_process, proc = rotated_process \<rparr>"
    by (simp add: store_certificate_on_blockchain_def load_module_def)
  have differ: "S ''0x0a01ff37d48008f63bc599ce2cab412fa2a184bd'' \<noteq>
      S ''0xe359fc31d8dd0adbfe94866db66aa10459e494b3''"
    by (simp add: S_def)
  from valid differ show ?thesis
    unfolding second
    by (simp add: store_certificate_on_blockchain_def load_module_def
        example_store_default example_store_later)
qed

text \<open>
  Claim C3 as amended: a second call of the anchoring operation with the same hash and
  institution id returns the same record as the first, after any calls of the module in
  between and any change of the environment that leaves \<open>SECRET_KEY\<close> (and the
  interpreter's digit limit) as it was at the first call. Nothing is stored: each call
  computes its record anew and leaves the module's state as it was.
\<close>

theorem store_twice_same_secret:
  "secret_key p' = secret_key (proc m) \<Longrightarrow>
   int_max_str_digits p' = int_max_str_digits (proc m) \<Longrightarrow>
   snd (exec (run (fst (exec m (Store h i))) cs \<lparr> proc := p' \<rparr>) (Store h i)) =
     snd (exec m (Store h i)) \<and>
   fst (exec m (Store h i)) = m \<and>
   fst (exec (run (fst (exec m (Store h i))) cs \<lparr> proc := p' \<rparr>) (Store h i)) =
     run (fst (exec m (Store h i))) cs \<lparr> proc := p' \<rparr>"
  by (simp add: run_unchanged store_certificate_on_blockchain_def
      store_same_secret [of p' "proc m"])

theorem store_twice_same_secret_witness:
  "environ other_process ''INFURA_API_KEY'' \<noteq> environ configured_process ''INFURA_API_KEY'' \<and>
   secret_key other_process = secret_key (proc (load_module configured_process)) \<and>
   snd (exec (run (fst (exec (load_module configured_process) (Store example_hash 7)))
                [Verify example_hash] \<lparr> proc := other_process \<rparr>)
          (Store example_hash 7)) =
     Inr [(''success'', PBool True),
          (''tx_hash'', PStr (S ''0x0a01ff37d48008f63bc599ce2cab412fa2a184bd'')),
          (''block_number'', PInt 12345678),
          (''gas_used'', PInt 21000),
          (''message'', PStr (S ''Certificate hash stored on blockchain successfully''))]"
proof -
  have env: "environ other_process ''INFURA_API_KEY'' \<noteq>
      environ configured_process ''INFURA_API_KEY''"
    by (simp add: other_process_def configured_process_def S_def)
  have sk: "secret_key other_process = secret_key (proc (load_module configured_process))"
    by (simp add: load_module_def secret_key_def getenv_default_def other_process_def
        configured_process_def)
  have lim: "int_max_str_digits other_process =
      int_max_str_digits (proc (load_module configured_process))"
    by (simp add: load_module_def other_process_def configured_process_def)
  have first: "snd (exec (load_module configured_process) (Store example_hash 7)) =
     Inr [(''success'', PBool True),
          (''tx_hash'', PStr (S ''0x0a01ff37d48008f63bc599ce2cab412fa2a184bd'')),
          (''block_number'', PInt 12345678),
          (''gas_used'', PInt 21000),
          (''message'', PStr (S ''Certificate hash stored on blockchain successfully''))]"
    by (simp add: store_certificate_on_blockchain_def load_module_def example_store_default)
  from store_twice_same_secret [OF sk lim, of example_hash 7 "[Verify example_hash]"]
  have "snd (exec (run (fst (exec (load_module configured_process) (Store example_hash 7)))
                [Verify example_hash] \<lparr> proc := other_process \<rparr>)
          (Store example_hash 7)) =
      snd (exec (load_module configured_process) (Store example_hash 7))"
    by (rule conjunct1)
  with first env sk show ?thesis by simp
qed

subsection \<open>C4: no API key\<close>

text \<open>
  Claim C4: when \<open>INFURA_API_KEY\<close> is absent as the module is loaded, every anchoring
  request returns at once the configuration failure, with a null transaction hash, and
  the module's state is unchanged.
\<close>

theorem store_without_key:
  "getenv p ''INFURA_API_KEY'' = None \<Longrightarrow>
   exec (load_module p) (Store h i) =
     (load_module p,
      Inr [(''success'', PBool False),
           (''error'', PStr (S ''Blockchain service not configured. INFURA_API_KEY is missing.'')),
           (''tx_hash'', PNone)])"
  by (simp add: load_module_def store_certificate_on_blockchain_def init_def
      store_unconfigured truthy_def)

theorem store_without_key_witness:
  "getenv bare_process ''INFURA_API_KEY'' = None \<and>
   exec (load_module bare_process) (Store (S ''a3f1'') 7) =
     (load_module bare_process,
      Inr [(''success'', PBool False),
           (''error'', PStr (S ''Blockchain service not configured. INFURA_API_KEY is missing.'')),
           (''tx_hash'', PNone)])"
proof -
  have "getenv bare_process ''INFURA_API_KEY'' = None"
    by (simp add: getenv_def bare_process_def)
  then show ?thesis
    using store_without_key [of bare_process "S ''a3f1''" 7] by simp
qed

subsection \<open>C5: malformed content hashes\<close>

text \<open>
  Claim C5 says that a malformed content hash (not 64 hex characters) is rejected with a
  validation error and never reaches the success path. The method validates nothing:
  the hash \<open>xyz\<close> is anchored with \<open>success = True\<close>.
\<close>

theorem C5_counterexample:
  "\<not> spec_valid_content_hash (S ''xyz'') \<and>
   entry (store_certificate_hash (init configured_process) configured_process (S ''xyz'') 1)
     ''success'' = Some (PBool True)"
proof -
  have "formattable configured_process (S ''xyz'') 1"
    by (simp add: formattable_one has_surrogate_S configured_secret)
  from store_ok [OF configured_truthy this] show ?thesis
    by (simp add: entry_def spec_valid_content_hash_def S_def)
qed

text \<open>
  Claim C5 as amended: with the service configured, anchoring fails exactly when
  building the transaction hash raises, that is when the hash or \<open>SECRET_KEY\<close> holds a
  surrogate code point or the institution id has more digits than the interpreter's
  limit; the form of the hash (its length, hex or not) plays no part.
\<close>

theorem store_rejects_only_unformattable:
  "truthy (infura_api_key self) \<Longrightarrow>
   entry (store_certificate_hash self p h i) ''success'' = Some (PBool (formattable p h i))"
proof (cases "formattable p h i")
  case True
  assume "truthy (infura_api_key self)"
  from store_ok [OF this True] True show ?thesis by (simp add: entry_def)
next
  case False
  assume "truthy (infura_api_key self)"
  from store_raised [OF this False] False show ?thesis by (auto simp: entry_def)
qed

theorem store_rejects_only_unformattable_witness:
  "\<not> spec_valid_content_hash (S ''not a hash'') \<and>
   formattable configured_process (S ''not a hash'') 1 \<and>
   entry (store_certificate_hash (init configured_process) configured_process (S ''not a hash'') 1)
     ''success'' = Some (PBool True)"
proof -
  have f: "formattable configured_process (S ''not a hash'') 1"
    by (simp add: formattable_one has_surrogate_S configured_secret)
  have "\<not> spec_valid_content_hash (S ''not a hash'')"
    by (simp add: spec_valid_content_hash_def S_def)
  with f show ?thesis
    using store_rejects_only_unformattable [OF configured_truthy,
        of configured_process "S ''not a hash''" 1]
    by simp
qed

subsection \<open>C6: verification after a successful anchoring\<close>

text \<open>
  Claim C6 says that a valid 64-character hex hash verifies after it was anchored. For
  the hash of 64 characters \<open>b\<close> and institution 7, anchoring succeeds and the
  verification that follows answers that the certificate was not found, although the
  comment in \<open>_simulate_blockchain_verification\<close> reads \<open>assume all hashes are verified\<close>.
\<close>

theorem C6_failing_input:
  "spec_valid_content_hash (S ''bbbbbbbbbbbbbbbbbbbbbbbbbbbbbbbbbbbbbbbbbbbbbbbbbbbbbbbbbbbbbbbb'') \<and>
   entry (snd (exec (load_module configured_process)
                 (Store (S ''bbbbbbbbbbbbbbbbbbbbbbbbbbbbbbbbbbbbbbbbbbbbbbbbbbbbbbbbbbbbbbbb'') 7)))
     ''success'' = Some (PBool True) \<and>
   snd (exec (run (load_module configured_process)
                [Store (S ''bbbbbbbbbbbbbbbbbbbbbbbbbbbbbbbbbbbbbbbbbbbbbbbbbbbbbbbbbbbbbbbb'') 7])
          (Verify (S ''bbbbbbbbbbbbbbbbbbbbbbbbbbbbbbbbbbbbbbbbbbbbbbbbbbbbbbbbbbbbbbbb''))) =
     Inr [(''verified'', PBool False),
          (''tx_hash'', PNone),
          (''block_number'', PNone),
          (''message'', PStr (S ''Certificate not found on blockchain''))]"
proof -
  let ?h = "S ''bbbbbbbbbbbbbbbbbbbbbbbbbbbbbbbbbbbbbbbbbbbbbbbbbbbbbbbbbbbbbbbb''"
  let ?m = "load_module configured_process"
  have key: "truthy (infura_api_key (blockchain_service ?m))"
    by (simp add: load_module_def configured_truthy)
  have valid: "spec_valid_content_hash ?h"
    by (simp add: spec_valid_content_hash_def S_def is_hex_char_def)
  have "within_digit_limit (proc ?m) 7"
    by (subst within_digit_limit_def, subst str_nat.simps)
       (simp add: load_module_def configured_process_def)
  then have "formattable (proc ?m) ?h 7"
    by (simp add: formattable_def has_surrogate_S load_module_def configured_secret)
  from store_ok [OF key this]
  have stored: "entry (snd (exec ?m (Store ?h 7))) ''success'' = Some (PBool True)"
    by (simp add: entry_def store_certificate_on_blockchain_def)
  have "\<not> simulate_blockchain_verification ?h"
    by (simp add: simulate_iff startswith_def S_def)
  from verify_not_prefixed [OF key this]
  have "snd (exec (run ?m [Store ?h 7]) (Verify ?h)) =
     Inr [(''verified'', PBool False),
          (''tx_hash'', PNone),
          (''block_number'', PNone),
          (''message'', PStr (S ''Certificate not found on blockchain''))]"
    by (simp add: run_unchanged verify_certificate_on_blockchain_def)
  with valid stored show ?thesis by (intro conjI)
qed

subsection \<open>C7: the transaction hash is a deterministic local digest\<close>

text \<open>
  Claim C7: two runs of the anchoring operation on the same hash and institution id,
  on configured services whose processes agree on \<open>SECRET_KEY\<close> (and on the digit
  limit), return the same result; the transaction hash is \<open>0x\<close> followed by the first
  40 hex characters of the SHA-256 digest of the UTF-8 bytes of
  \<open>hash_id_secret\<close>, and nothing else enters it.
\<close>

theorem tx_hash_deterministic:
  "truthy (infura_api_key s1) \<Longrightarrow> truthy (infura_api_key s2) \<Longrightarrow>
   secret_key p1 = secret_key p2 \<Longrightarrow> int_max_str_digits p1 = int_max_str_digits p2 \<Longrightarrow>
   store_certificate_hash s1 p1 h i = store_certificate_hash s2 p2 h i \<and>
   entry (store_certificate_hash s1 p1 h i) ''tx_hash'' =
     Some (if formattable p1 h i
           then PStr (S ''0x'' @ take 40 (hexdigest (sha256 (concat (map utf8_char
                   (h @ S ''_'' @ str_int i @ S ''_'' @ secret_key p1))))))
           else PNone)"
proof -
  assume k1: "truthy (infura_api_key s1)" and k2: "truthy (infura_api_key s2)"
    and sk: "secret_key p1 = secret_key p2"
    and lim: "int_max_str_digits p1 = int_max_str_digits p2"
  have sk': "getenv_default p1 ''SECRET_KEY'' (S ''default'') =
      getenv_default p2 ''SECRET_KEY'' (S ''default'')"
    using sk by (simp add: secret_key_def)
  have gen: "generate_mock_tx_hash p1 h i = generate_mock_tx_hash p2 h i"
    by (simp only: generate_mock_tx_hash_def sk' lim)
  have same: "store_certificate_hash s1 p1 h i = store_certificate_hash s2 p2 h i"
    using k1 k2 gen by (simp add: store_certificate_hash_def store_body_def)
  have "entry (store_certificate_hash s1 p1 h i) ''tx_hash'' =
     Some (if formattable p1 h i
           then PStr (tx_digest (mock_tx_data h (str_int i) (secret_key p1)))
           else PNone)"
  proof (cases "formattable p1 h i")
    case True
    from store_ok [OF k1 True] True show ?thesis by (simp add: entry_def)
  next
    case False
    from store_raised [OF k1 False] False show ?thesis by (auto simp: entry_def)
  qed
  with same show ?thesis by (simp add: tx_digest_def mock_tx_data_def)
qed

theorem tx_hash_deterministic_witness:
  "init configured_process \<noteq> init other_process \<and>
   store_certificate_hash (init configured_process) configured_process (S ''a3f1'') 7 =
   store_certificate_hash (init other_process) other_process (S ''a3f1'') 7 \<and>
   entry (store_certificate_hash (init configured_process) configured_process (S ''a3f1'') 7)
     ''tx_hash'' =
     Some (PStr (S ''0x'' @ take 40 (hexdigest (sha256 (concat (map utf8_char
             (S ''a3f1'' @ S ''_'' @ str_int 7 @ S ''_'' @ S ''default'')))))))"
proof -
  have k2: "truthy (infura_api_key (init other_process))"
    by (simp add: init_def getenv_def other_process_def truthy_def S_def)
  have sk: "secret_key configured_process = secret_key other_process"
    by (simp add: secret_key_def getenv_default_def configured_process_def other_process_def)
  have lim: "int_max_str_digits configured_process = int_max_str_digits other_process"
    by (simp add: configured_process_def other_process_def)
  have "within_digit_limit configured_process 7"
    by (subst within_digit_limit_def, subst str_nat.simps) (simp add: configured_process_def)
  then have f: "formattable configured_process (S ''a3f1'') 7"
    by (simp add: formattable_def has_surrogate_S configured_secret)
  have ne: "init configured_process \<noteq> init other_process"
    by (simp add: init_def getenv_def configured_process_def other_process_def S_def)
  note both = tx_hash_deterministic [OF configured_truthy k2 sk lim, of "S ''a3f1''" 7]
  from both have same:
    "store_certificate_hash (init configured_process) configured_process (S ''a3f1'') 7 =
     store_certificate_hash (init other_process) other_process (S ''a3f1'') 7"
    by (rule conjunct1)
  from both [THEN conjunct2] f
  have tx: "entry (store_certificate_hash (init configured_process) configured_process (S ''a3f1'') 7)
     ''tx_hash'' =
     Some (PStr (S ''0x'' @ take 40 (hexdigest (sha256 (concat (map utf8_char
             (S ''a3f1'' @ S ''_'' @ str_int 7 @ S ''_'' @ S ''default'')))))))"
    by (simp only: if_True configured_secret)
  from ne same tx show ?thesis by (intro conjI)
qed
subsection \<open>C8: the empty hash\<close>

text \<open>
  Claim C8: with the service configured, verification of the empty string \<open>[]\<close> returns
  \<open>verified = False\<close>, a null transaction hash and block number, and the message
  \<open>Certificate not found on blockchain\<close>.
\<close>

theorem verify_empty_hash:
  "truthy (infura_api_key self) \<Longrightarrow>
   verify_certificate_hash self p [] =
     Inr [(''verified'', PBool False),
          (''tx_hash'', PNone),
          (''block_number'', PNone),
          (''message'', PStr (S ''Certificate not found on blockchain''))]"
  by (rule verify_not_prefixed) (simp_all add: simulate_blockchain_verification_def S_def)

theorem verify_empty_hash_witness:
  "truthy (infura_api_key (init configured_process)) \<and>
   verify_certificate_hash (init configured_process) configured_process [] =
     Inr [(''verified'', PBool False),
          (''tx_hash'', PNone),
          (''block_number'', PNone),
          (''message'', PStr (S ''Certificate not found on blockchain''))]"
  using verify_empty_hash [OF configured_truthy, of configured_process] configured_truthy
  by simp

subsection \<open>C9: anchoring succeeds without validation\<close>

text \<open>
  Claim C9 says that, with the service configured, anchoring succeeds for every input
  string and institution id. For the string made of the lone surrogate U+D800 the
  encoding raises and the result has \<open>success = False\<close>.
\<close>

theorem C9_counterexample:
  "valid_str [0xD800] \<and>
   truthy (infura_api_key (init configured_process)) \<and>
   entry (store_certificate_hash (init configured_process) configured_process [0xD800] 1)
     ''success'' = Some (PBool False)"
proof -
  have "\<not> formattable configured_process [0xD800] 1"
    by (simp add: formattable_one has_surrogate_def is_surrogate_def)
  from store_raised [OF configured_truthy this] show ?thesis
    by (auto simp: configured_truthy entry_def valid_str_def)
qed

text \<open>
  Claim C9 as amended: with the service configured, anchoring succeeds, whatever the
  form of the hash, for every hash and institution id for which building the
  transaction hash does not raise (no surrogate code point in the hash or in
  \<open>SECRET_KEY\<close>, the id within the digit limit); it returns \<open>success = True\<close>, a
  transaction hash that is \<open>0x\<close> followed by exactly 40 hex characters, block number
  12345678 and gas 21000.
\<close>

theorem store_formattable_succeeds:
  "truthy (infura_api_key self) \<Longrightarrow> formattable p h i \<Longrightarrow>
   store_certificate_hash self p h i =
     Inr [(''success'', PBool True),
          (''tx_hash'', PStr (tx_digest (mock_tx_data h (str_int i) (secret_key p)))),
          (''block_number'', PInt 12345678),
          (''gas_used'', PInt 21000),
          (''message'', PStr (S ''Certificate hash stored on blockchain successfully''))] \<and>
   is_tx_hash (tx_digest (mock_tx_data h (str_int i) (secret_key p)))"
  by (simp add: store_ok tx_digest_def is_tx_hash_mock)

theorem store_formattable_succeeds_witness:
  "formattable configured_process (S ''zz'') 1 \<and>
   entry (store_certificate_hash (init configured_process) configured_process (S ''zz'') 1)
     ''gas_used'' = Some (PInt 21000) \<and>
   is_tx_hash (tx_digest (mock_tx_data (S ''zz'') (str_int 1) (secret_key configured_process)))"
proof -
  have f: "formattable configured_process (S ''zz'') 1"
    by (simp add: formattable_one has_surrogate_S configured_secret)
  from store_formattable_succeeds [OF configured_truthy f] f show ?thesis
    by (simp add: entry_def)
qed

subsection \<open>C10: the two methods never raise\<close>

text \<open>
  Claim C10: \<open>store_certificate_hash\<close> and \<open>verify_certificate_hash\<close> return a dict
  for every input, and no exception leaves them; when the service is not configured or
  the \<open>try\<close> block raises, the dict has its flag (\<open>success\<close>, respectively
  \<open>verified\<close>) \<open>False\<close> and an \<open>error\<close> message.
\<close>

theorem methods_never_raise:
  "(\<exists>r. store_certificate_hash self p h i = Inr r \<and>
        ((\<not> truthy (infura_api_key self) \<or> isl (store_body self p h i))
           \<longrightarrow> reports_failure ''success'' r)) \<and>
   (\<exists>r. verify_certificate_hash self p h = Inr r \<and>
        ((\<not> truthy (infura_api_key self) \<or> isl (verify_body self p h))
           \<longrightarrow> reports_failure ''verified'' r))"
proof
  show "\<exists>r. store_certificate_hash self p h i = Inr r \<and>
        ((\<not> truthy (infura_api_key self) \<or> isl (store_body self p h i))
           \<longrightarrow> reports_failure ''success'' r)"
    by (cases "store_body self p h i")
       (auto simp: store_certificate_hash_def store_body_def reports_failure_def
             split: if_splits sum.splits)
next
  show "\<exists>r. verify_certificate_hash self p h = Inr r \<and>
        ((\<not> truthy (infura_api_key self) \<or> isl (verify_body self p h))
           \<longrightarrow> reports_failure ''verified'' r)"
    by (cases "verify_body self p h")
       (auto simp: verify_certificate_hash_def verify_body_def reports_failure_def Let_def
             split: if_splits sum.splits)
qed

theorem methods_never_raise_witness:
  "isl (store_body (init configured_process) configured_process [97, 0xD800] 1) \<and>
   (\<exists>r. store_certificate_hash (init configured_process) configured_process [97, 0xD800] 1 = Inr r \<and>
        reports_failure ''success'' r) \<and>
   isl (verify_body (init configured_process) configured_process [97, 0xD800]) \<and>
   (\<exists>r. verify_certificate_hash (init configured_process) configured_process [97, 0xD800] = Inr r \<and>
        reports_failure ''verified'' r)"
proof -
  have nf: "\<not> formattable configured_process [97, 0xD800] 1"
    by (simp add: formattable_one has_surrogate_def is_surrogate_def)
  have a: "simulate_blockchain_verification [97, 0xD800]"
    by (simp add: simulate_iff startswith_def S_def)
  have s: "isl (store_body (init configured_process) configured_process [97, 0xD800] 1)"
    using store_raised [OF configured_truthy nf] by auto
  have v: "isl (verify_body (init configured_process) configured_process [97, 0xD800])"
    using verify_raised [OF configured_truthy a nf] by auto
  from s v
    methods_never_raise [of "init configured_process" configured_process "[97, 0xD800]" 1]
  show ?thesis by blast
qed

end
